theory Spec2Isabelle
  imports Main "HOL-Library.Multiset" "HOL-Library.List_Lexorder" "HOL-Library.Product_Lexorder"
begin

text \<open>
  A shallow embedding of \<^verbatim>\<open>src/teacher/teacher_app.py\<close>, the Flask backend of the teacher
  portal: every view function is a function from the environment, the request and the
  state (session and database) to a reply, which holds the response or the exception that
  left the function, the state afterwards and what became of the database connection.
  An early \<^verbatim>\<open>return\<close>, a raised exception, the \<^verbatim>\<open>except\<close> clause and the
  \<^verbatim>\<open>finally\<close> clause of the source are each a branch of the model. MySQL, its driver
  and \<^verbatim>\<open>teacher_db.create_connection\<close> are not part of the source; what the handlers
  need of them is a parameter (the record \<open>env\<close> below).
\<close>

section \<open>Python values\<close>

text \<open>
  The values a handler of \<^verbatim>\<open>teacher_app.py\<close> receives from a JSON body, from the query
  string and from the session: \<^verbatim>\<open>None\<close>, booleans, integers, strings, lists and
  dictionaries. A dictionary is an association list with distinct keys, read with
  \<open>map_of\<close>. JSON floats do not occur in any request the handlers expect and are left out.
\<close>

datatype pyval =
    PNone
  | PBool bool
  | PInt int
  | PStr string
  | PList "pyval list"
  | PDict "(string \<times> pyval) list"

text \<open>Python truthiness, as used by \<^verbatim>\<open>not x\<close> and \<^verbatim>\<open>all([...])\<close>.\<close>

fun truthy :: "pyval \<Rightarrow> bool" where
  "truthy PNone = False"
| "truthy (PBool b) = b"
| "truthy (PInt n) = (n \<noteq> 0)"
| "truthy (PStr s) = (s \<noteq> [])"
| "truthy (PList xs) = (xs \<noteq> [])"
| "truthy (PDict kvs) = (kvs \<noteq> [])"

text \<open>
  The exceptions that can leave a handler. \<open>MySQLError\<close> is
  \<^verbatim>\<open>mysql.connector.Error\<close> with its message; \<open>BadRequest\<close> is what
  \<^verbatim>\<open>request.get_json()\<close> raises for a body that is not JSON.
\<close>

datatype exn =
    MySQLError string
  | KeyError string
  | TypeError
  | AttributeError
  | BadRequest

text \<open>\<^verbatim>\<open>d.get(k)\<close>: only a dictionary has the method.\<close>

fun py_get :: "pyval \<Rightarrow> string \<Rightarrow> exn + pyval" where
  "py_get (PDict kvs) k = Inr (case map_of kvs k of None \<Rightarrow> PNone | Some v \<Rightarrow> v)"
| "py_get _ k = Inl AttributeError"

text \<open>\<^verbatim>\<open>item[k]\<close> with a string key \<open>k\<close>.\<close>

fun py_item :: "pyval \<Rightarrow> string \<Rightarrow> exn + pyval" where
  "py_item (PDict kvs) k = (case map_of kvs k of None \<Rightarrow> Inl (KeyError k) | Some v \<Rightarrow> Inr v)"
| "py_item _ k = Inl TypeError"

text \<open>
  \<^verbatim>\<open>for item in v\<close>: a list yields its elements, a dictionary its keys, a string its
  characters; nothing else is iterable.
\<close>

fun py_iter :: "pyval \<Rightarrow> exn + pyval list" where
  "py_iter (PList xs) = Inr xs"
| "py_iter (PDict kvs) = Inr (map (\<lambda>kv. PStr (fst kv)) kvs)"
| "py_iter (PStr s) = Inr (map (\<lambda>c. PStr [c]) s)"
| "py_iter _ = Inl TypeError"

text \<open>\<^verbatim>\<open>s.startswith(p)\<close>.\<close>

definition startswith :: "string \<Rightarrow> string \<Rightarrow> bool" where
  "startswith p s = (take (length p) s = p)"

text \<open>\<^verbatim>\<open>str(n)\<close> for a natural number.\<close>

definition digit :: "nat \<Rightarrow> char" where
  "digit n = ''0123456789'' ! n"

fun str_nat :: "nat \<Rightarrow> string" where
  "str_nat n =
     (if n < 10 then [digit n]
      else str_nat (n div 10) @ [digit (n mod 10)])"

declare str_nat.simps [simp del]

text \<open>
  \<^verbatim>\<open>str(td)\<close> for a \<^verbatim>\<open>datetime.timedelta\<close> of whole, non-negative seconds, which is
  how the driver returns a TIME column.
\<close>

definition pad2 :: "nat \<Rightarrow> string" where
  "pad2 n = (if n < 10 then CHR ''0'' # str_nat n else str_nat n)"

definition str_timedelta :: "nat \<Rightarrow> string" where
  "str_timedelta secs =
     (let days = secs div 86400;
          r = secs mod 86400;
          hms = str_nat (r div 3600) @ '':'' @ pad2 (r mod 3600 div 60) @ '':'' @ pad2 (r mod 60)
      in if days = 0 then hms
         else str_nat days @ (if days = 1 then '' day, '' else '' days, '') @ hms)"

section \<open>The database\<close>

text \<open>
  The tables the queries of \<^verbatim>\<open>teacher_app.py\<close> read and write, each with the columns the
  queries name. The schema itself is not part of the repository: key columns are taken
  as integers, text columns as strings, TIME columns as seconds since midnight, and the
  attendance timestamp as the text \<^verbatim>\<open>str\<close> gives for it (\<open>None\<close> for NULL). A table is
  the list of its rows in storage order.
\<close>

record teacher =
  t_teacher_id :: int
  t_name :: string
  t_email :: string
  t_password :: string

record class_row =
  c_class_id :: int
  c_class_name :: string

record subject =
  sub_subject_id :: int
  sub_subject_name :: string

record schedule =
  s_schedule_id :: int
  s_teacher_id :: int
  s_class_id :: int
  s_subject_id :: int
  s_day_of_week :: string
  s_start_time :: nat
  s_end_time :: nat
  s_batch :: string

record student =
  stu_student_id :: int
  stu_name :: string
  stu_email :: string
  stu_batch :: string

record attendance_row =
  a_student_id :: int
  a_schedule_id :: int
  a_attendance_date :: string
  a_status :: string
  a_timestamp :: "string option"

record database =
  Teachers :: "teacher list"
  Classes :: "class_row list"
  Subjects :: "subject list"
  Schedules :: "schedule list"
  Students :: "student list"
  attendance :: "attendance_row list"

text \<open>
  The statements a handler sends over its connection: the \<open>k\<close>-th
  \<^verbatim>\<open>cursor.execute\<close> of the request, the \<open>i\<close>-th row of
  \<^verbatim>\<open>cursor.executemany\<close>, \<^verbatim>\<open>conn.commit()\<close> and \<^verbatim>\<open>conn.rollback()\<close>.
\<close>

datatype stmt = Execute nat | InsertRow nat | Commit | Rollback

text \<open>
  Everything a request depends on that is outside \<^verbatim>\<open>teacher_app.py\<close>, taken as a
  parameter:
  \<^item> \<open>conn_ok\<close>: \<^verbatim>\<open>teacher_db.create_connection()\<close> returns a connection (not
    \<^verbatim>\<open>None\<close>);
  \<^item> \<open>fault\<close>: the statements at which the driver raises
    \<^verbatim>\<open>mysql.connector.Error\<close>, with the message;
  \<^item> \<open>is_connected\<close>: what \<^verbatim>\<open>conn.is_connected()\<close> answers in the cleanup;
  \<^item> \<open>today_name\<close>: \<^verbatim>\<open>datetime.datetime.now().strftime('%A')\<close>;
  \<^item> \<open>eq_id\<close>, \<open>eq_text\<close>: the database's comparison \<^verbatim>\<open>column = %s\<close> of a bound
    Python value with a key column and with a text column;
  \<^item> \<open>collate\<close>: the sort key of \<^verbatim>\<open>ORDER BY\<close> on a text column;
  \<^item> \<open>typed_row\<close>: the values an INSERT stores for the four bound values
    (student, schedule, date, status), or the database's error message;
  \<^item> \<open>default_timestamp\<close>: the timestamp a new attendance row gets from its column
    default.
\<close>

record env =
  conn_ok :: bool
  fault :: "stmt \<Rightarrow> string option"
  is_connected :: bool
  today_name :: string
  eq_id :: "pyval \<Rightarrow> int \<Rightarrow> bool"
  eq_text :: "pyval \<Rightarrow> string \<Rightarrow> bool"
  collate :: "string \<Rightarrow> nat list"
  typed_row :: "pyval \<times> pyval \<times> pyval \<times> pyval \<Rightarrow> string + (int \<times> int \<times> string \<times> string)"
  default_timestamp :: "string option"

text \<open>\<^verbatim>\<open>cursor.execute\<close> of the \<open>k\<close>-th query: the rows it selects, or the driver's error.\<close>

definition execute :: "env \<Rightarrow> nat \<Rightarrow> 'a list \<Rightarrow> exn + 'a list" where
  "execute e k rows =
     (case fault e (Execute k) of Some msg \<Rightarrow> Inl (MySQLError msg) | None \<Rightarrow> Inr rows)"

text \<open>\<^verbatim>\<open>cursor.fetchone()\<close>.\<close>

definition fetchone :: "'a list \<Rightarrow> 'a option" where
  "fetchone rows = (case rows of [] \<Rightarrow> None | r # _ \<Rightarrow> Some r)"

section \<open>Requests, sessions and responses\<close>

text \<open>
  The request methods: a rule for GET answers HEAD as well, and Flask adds OPTIONS to
  every rule; \<open>OtherMethod\<close> is any method no rule answers.
\<close>

datatype http_method = GET | HEAD | POST | OPTIONS | OtherMethod

text \<open>
  \<open>req_args\<close> is the query string (\<^verbatim>\<open>request.args\<close>); \<open>req_json\<close> is the parsed body,
  \<open>None\<close> when \<^verbatim>\<open>request.get_json()\<close> rejects it.
\<close>

record request =
  req_method :: http_method
  req_path :: string
  req_args :: "(string \<times> string) list"
  req_json :: "pyval option"

text \<open>The Flask session and the database: the state that outlives a request.\<close>

record state =
  session :: "string \<rightharpoonup> pyval"
  db :: database

text \<open>
  What a view function hands back: a JSON response with its status code
  (\<^verbatim>\<open>jsonify(...), code\<close>), a redirect, a rendered template, or an exception that leaves
  the function uncaught. \<open>AutoOptions\<close> is the answer Flask itself gives to an OPTIONS
  request on the path of a rule: a 200 with an \<^verbatim>\<open>Allow\<close> header and no body, for which
  neither the view function nor its decorator runs. \<open>NotRouted\<close> stands for a request
  no \<^verbatim>\<open>@app.route\<close> rule matches (Flask's 404 or 405).
\<close>

datatype outcome =
    Json nat pyval
  | Redirect string
  | Rendered string
  | Raised exn
  | AutoOptions
  | NotRouted

text \<open>
  The connection of a request when the view function has returned: never acquired, still
  held, closed by \<^verbatim>\<open>conn.close()\<close>, or found disconnected by the cleanup.
\<close>

datatype conn_state = NoConn | Held | Closed | Lost

record reply =
  outcome :: outcome
  final :: state
  conn :: conn_state

type_synonym handler = "env \<Rightarrow> request \<Rightarrow> state \<Rightarrow> reply"

text \<open>\<^verbatim>\<open>request.args.get(k)\<close> and \<^verbatim>\<open>session.get(k)\<close>.\<close>

definition args_get :: "request \<Rightarrow> string \<Rightarrow> pyval" where
  "args_get req k = (case map_of (req_args req) k of None \<Rightarrow> PNone | Some v \<Rightarrow> PStr v)"

definition session_get :: "state \<Rightarrow> string \<Rightarrow> pyval" where
  "session_get st k = (case session st k of None \<Rightarrow> PNone | Some v \<Rightarrow> v)"

definition get_json :: "request \<Rightarrow> exn + pyval" where
  "get_json req = (case req_json req of None \<Rightarrow> Inl BadRequest | Some v \<Rightarrow> Inr v)"

text \<open>\<^verbatim>\<open>{'success': False, 'message': msg}\<close>.\<close>

definition failure :: "string \<Rightarrow> pyval" where
  "failure msg = PDict [(''success'', PBool False), (''message'', PStr msg)]"

text \<open>
  The uniform failure shape, and a handler's answer in JSON: a 200, or a failure of that
  shape with its error code.
\<close>

definition is_failure :: "pyval \<Rightarrow> bool" where
  "is_failure body =
     (case body of
        PDict [(k1, PBool False), (k2, PStr msg)] \<Rightarrow> k1 = ''success'' \<and> k2 = ''message''
      | _ \<Rightarrow> False)"

definition answered_json :: "outcome \<Rightarrow> bool" where
  "answered_json out = (case out of Json code body \<Rightarrow> code = 200 \<or> is_failure body | _ \<Rightarrow> False)"

text \<open>
  What may leave a handler that catches \<^verbatim>\<open>mysql.connector.Error\<close>: an answer in JSON, or
  an exception that is not a database error.
\<close>

definition caught_database_errors :: "outcome \<Rightarrow> bool" where
  "caught_database_errors out =
     (case out of
        Raised (MySQLError msg) \<Rightarrow> False
      | Raised x \<Rightarrow> True
      | _ \<Rightarrow> answered_json out)"

text \<open>
  A reply leaves no connection behind: none was acquired, or the cleanup closed it or
  found it already disconnected.
\<close>

definition released :: "env \<Rightarrow> reply \<Rightarrow> bool" where
  "released e r = (conn r = NoConn \<or> conn r = (if is_connected e then Closed else Lost))"

text \<open>A return before any connection is requested, or after \<^verbatim>\<open>create_connection\<close> gave none.\<close>

definition respond :: "nat \<Rightarrow> pyval \<Rightarrow> state \<Rightarrow> reply" where
  "respond code body st = \<lparr>outcome = Json code body, final = st, conn = NoConn\<rparr>"

definition raised :: "exn \<Rightarrow> state \<Rightarrow> reply" where
  "raised x st = \<lparr>outcome = Raised x, final = st, conn = NoConn\<rparr>"

text \<open>
  A return or a raise inside the \<^verbatim>\<open>try\<close> block: the connection is still held.
\<close>

definition held :: "outcome \<Rightarrow> state \<Rightarrow> reply" where
  "held out st = \<lparr>outcome = out, final = st, conn = Held\<rparr>"

text \<open>
  The \<^verbatim>\<open>finally\<close> clause of every handler:
  \<^verbatim>\<open>if conn.is_connected(): conn.close()\<close>, run on the way out of the \<^verbatim>\<open>try\<close> block
  whatever it returned or raised.
\<close>

definition finally_close :: "env \<Rightarrow> reply \<Rightarrow> reply" where
  "finally_close e r = r\<lparr>conn := (if is_connected e then Closed else Lost)\<rparr>"

section \<open>The handlers of \<^verbatim>\<open>teacher_app.py\<close>\<close>

subsection \<open>Pages, login and logout\<close>

definition index :: handler where
  "index e req st = \<lparr>outcome = Redirect ''/teacher'', final = st, conn = NoConn\<rparr>"

text \<open>
  The decorator \<^verbatim>\<open>teacher_required\<close>: the wrapped function runs only for a session whose
  \<^verbatim>\<open>user_type\<close> is \<^verbatim>\<open>'teacher'\<close>.
\<close>

definition teacher_required :: "handler \<Rightarrow> handler" where
  "teacher_required f e req st =
     (if session st ''user_type'' = None \<or> session st ''user_type'' \<noteq> Some (PStr ''teacher'') then
        (if startswith ''/api/'' (req_path req)
         then respond 401 (failure ''Authentication required'') st
         else \<lparr>outcome = Redirect ''/teacher'', final = st, conn = NoConn\<rparr>)
      else f e req st)"

definition teacher_login_page :: handler where
  "teacher_login_page e req st =
     \<lparr>outcome = Rendered ''teacher_portal.html'', final = st, conn = NoConn\<rparr>"

text \<open>
  The rows of \<^verbatim>\<open>SELECT * FROM Teachers WHERE email = %s AND password = %s\<close>.
\<close>

definition select_teacher :: "env \<Rightarrow> database \<Rightarrow> pyval \<Rightarrow> pyval \<Rightarrow> teacher list" where
  "select_teacher e d email password =
     filter (\<lambda>t. eq_text e email (t_email t) \<and> eq_text e password (t_password t)) (Teachers d)"

definition teacher_login_action :: handler where
  "teacher_login_action e req st =
     (case get_json req of
        Inl x \<Rightarrow> raised x st
      | Inr data \<Rightarrow>
     (case py_get data ''email'' of
        Inl x \<Rightarrow> raised x st
      | Inr email \<Rightarrow>
     (case py_get data ''password'' of
        Inl x \<Rightarrow> raised x st
      | Inr password \<Rightarrow>
        if \<not> truthy email \<or> \<not> truthy password then
          respond 400 (failure ''Email and password are required.'') st
        else if \<not> conn_ok e then respond 500 (failure ''Database error'') st
        else finally_close e
          (case execute e 0 (select_teacher e (db st) email password) of
             Inl x \<Rightarrow> held (Raised x) st
           | Inr rows \<Rightarrow>
          (case fetchone rows of
             Some teacher \<Rightarrow>
               held
                 (Json 200 (PDict [(''success'', PBool True),
                    (''teacher'', PDict [(''name'', PStr (t_name teacher)),
                                         (''id'', PInt (t_teacher_id teacher))])]))
                 (st\<lparr>session := (session st)
                    (''user_type'' \<mapsto> PStr ''teacher'',
                     ''user_id'' \<mapsto> PInt (t_teacher_id teacher),
                     ''user_name'' \<mapsto> PStr (t_name teacher))\<rparr>)
           | None \<Rightarrow> held (Json 401 (failure ''Invalid credentials.'')) st)))))"

definition teacher_logout :: handler where
  "teacher_logout e req st =
     \<lparr>outcome = Json 200 (PDict [(''success'', PBool True)]),
      final = st\<lparr>session := Map.empty\<rparr>, conn = NoConn\<rparr>"

subsection \<open>Session and schedule queries\<close>

definition teacher_session :: handler where
  "teacher_session e req st =
     (if session_get st ''user_type'' = PStr ''teacher'' then
        respond 200 (PDict [(''logged_in'', PBool True),
          (''teacher'', PDict [(''id'', session_get st ''user_id''),
                               (''name'', session_get st ''user_name'')])]) st
      else respond 200 (PDict [(''logged_in'', PBool False)]) st)"

text \<open>
  \<^verbatim>\<open>FROM Schedules s JOIN Classes c ON s.class_id = c.class_id
  JOIN Subjects sub ON s.subject_id = sub.subject_id\<close>.
\<close>

definition joined :: "database \<Rightarrow> (schedule \<times> class_row \<times> subject) list" where
  "joined d =
     [(s, c, sub). s \<leftarrow> Schedules d, c \<leftarrow> Classes d, s_class_id s = c_class_id c,
                   sub \<leftarrow> Subjects d, s_subject_id s = sub_subject_id sub]"

definition weekly_row :: "schedule \<times> class_row \<times> subject \<Rightarrow> pyval" where
  "weekly_row j = (case j of (s, c, sub) \<Rightarrow>
     PDict [(''day_of_week'', PStr (s_day_of_week s)),
            (''start_time'', PStr (str_timedelta (s_start_time s))),
            (''end_time'', PStr (str_timedelta (s_end_time s))),
            (''batch'', PStr (s_batch s)),
            (''class_name'', PStr (c_class_name c)),
            (''subject_name'', PStr (sub_subject_name sub))])"

definition get_teacher_schedule :: handler where
  "get_teacher_schedule e req st =
     (let teacher_id = session_get st ''user_id'' in
      if \<not> conn_ok e then respond 500 (failure ''Database error'') st
      else finally_close e
        (case execute e 0 (filter (\<lambda>(s, c, sub). eq_id e teacher_id (s_teacher_id s)) (joined (db st))) of
           Inl x \<Rightarrow> held (Raised x) st
         | Inr schedule \<Rightarrow>
             held
               (Json 200 (PDict [(''success'', PBool True), (''data'', PList (map weekly_row schedule))]))
               st))"

definition today_row :: "schedule \<times> class_row \<times> subject \<Rightarrow> pyval" where
  "today_row j = (case j of (s, c, sub) \<Rightarrow>
     PDict [(''schedule_id'', PInt (s_schedule_id s)),
            (''start_time'', PStr (str_timedelta (s_start_time s))),
            (''end_time'', PStr (str_timedelta (s_end_time s))),
            (''batch'', PStr (s_batch s)),
            (''class_name'', PStr (c_class_name c)),
            (''subject_name'', PStr (sub_subject_name sub))])"

definition get_today_classes :: handler where
  "get_today_classes e req st =
     (let teacher_id = session_get st ''user_id'';
          today = today_name e in
      if \<not> conn_ok e then respond 500 (failure ''Database error'') st
      else finally_close e
        (case execute e 0
                (sort_key (\<lambda>(s, c, sub). s_start_time s)
                   (filter (\<lambda>(s, c, sub). eq_id e teacher_id (s_teacher_id s)
                                          \<and> eq_text e (PStr today) (s_day_of_week s))
                      (joined (db st)))) of
           Inl x \<Rightarrow> held (Raised x) st
         | Inr classes \<Rightarrow>
             held
               (Json 200 (PDict [(''success'', PBool True), (''data'', PList (map today_row classes))]))
               st))"

definition class_row_json :: "int \<times> string \<times> string \<times> string \<Rightarrow> pyval" where
  "class_row_json r = (case r of (schedule_id, class_name, subject_name, batch) \<Rightarrow>
     PDict [(''schedule_id'', PInt schedule_id),
            (''class_name'', PStr class_name),
            (''subject_name'', PStr subject_name),
            (''batch'', PStr batch)])"

definition get_all_teacher_classes :: handler where
  "get_all_teacher_classes e req st =
     (let teacher_id = session_get st ''user_id'' in
      if \<not> conn_ok e then respond 500 (failure ''Database error'') st
      else finally_close e
        (case execute e 0
                (sort_key (\<lambda>(schedule_id, class_name, subject_name, batch).
                              (collate e class_name, collate e subject_name, collate e batch))
                   (remdups
                      (map (\<lambda>(s, c, sub). (s_schedule_id s, c_class_name c, sub_subject_name sub, s_batch s))
                         (filter (\<lambda>(s, c, sub). eq_id e teacher_id (s_teacher_id s)) (joined (db st)))))) of
           Inl x \<Rightarrow> held (Raised x) st
         | Inr rows \<Rightarrow>
             held
               (Json 200 (PDict [(''success'', PBool True), (''data'', PList (map class_row_json rows))]))
               st))"


subsection \<open>Roster lookup\<close>

text \<open>
  \<^verbatim>\<open>SELECT batch FROM Schedules WHERE schedule_id = %s\<close>. The handlers read the first
  row with \<^verbatim>\<open>fetchone\<close>; \<open>schedule_id\<close> being the key of the table, there is at most one.
\<close>

definition select_schedule :: "env \<Rightarrow> database \<Rightarrow> pyval \<Rightarrow> schedule list" where
  "select_schedule e d schedule_id =
     filter (\<lambda>s. eq_id e schedule_id (s_schedule_id s)) (Schedules d)"

text \<open>\<^verbatim>\<open>SELECT ... FROM Students WHERE batch = %s ORDER BY name\<close>.\<close>

definition select_students :: "env \<Rightarrow> database \<Rightarrow> string \<Rightarrow> student list" where
  "select_students e d batch =
     sort_key (\<lambda>s. collate e (stu_name s))
       (filter (\<lambda>s. eq_text e (PStr batch) (stu_batch s)) (Students d))"

definition student_json :: "student \<Rightarrow> pyval" where
  "student_json s =
     PDict [(''student_id'', PInt (stu_student_id s)),
            (''name'', PStr (stu_name s)),
            (''email'', PStr (stu_email s)),
            (''batch'', PStr (stu_batch s))]"

text \<open>The body of the \<^verbatim>\<open>try\<close> block of \<^verbatim>\<open>get_class_students\<close>.\<close>

definition class_students_body :: "env \<Rightarrow> database \<Rightarrow> pyval \<Rightarrow> exn + outcome" where
  "class_students_body e d schedule_id =
     (case execute e 0 (select_schedule e d schedule_id) of
        Inl x \<Rightarrow> Inl x
      | Inr found \<Rightarrow>
     (case fetchone found of
        None \<Rightarrow> Inr (Json 404 (failure ''Schedule not found.''))
      | Some schedule_info \<Rightarrow>
          (let batch = s_batch schedule_info in
           case execute e 1 (select_students e d batch) of
             Inl x \<Rightarrow> Inl x
           | Inr students \<Rightarrow>
               Inr (Json 200 (PDict [(''success'', PBool True),
                                     (''data'', PList (map student_json students))])))))"

definition get_class_students :: handler where
  "get_class_students e req st =
     (let schedule_id = args_get req ''schedule_id'' in
      if \<not> truthy schedule_id then respond 400 (failure ''Schedule ID is required.'') st
      else if \<not> conn_ok e then respond 500 (failure ''Database error'') st
      else finally_close e
        (case class_students_body e (db st) schedule_id of
           Inr out \<Rightarrow> held out st
         | Inl (MySQLError err) \<Rightarrow>
             held (Json 500 (failure (''Database Error: '' @ err))) st
         | Inl x \<Rightarrow> held (Raised x) st))"

subsection \<open>Attendance write\<close>

text \<open>
  The connection of \<^verbatim>\<open>mark_attendance\<close> works in a transaction (the handler calls
  \<^verbatim>\<open>conn.commit()\<close> itself): \<open>working\<close> is the attendance table as the open transaction
  sees it, \<open>committed\<close> the table as stored. Closing the connection leaves \<open>committed\<close>.
\<close>

record txn =
  committed :: "attendance_row list"
  working :: "attendance_row list"

definition conn_commit :: "txn \<Rightarrow> txn" where
  "conn_commit t = t\<lparr>committed := working t\<rparr>"

definition conn_rollback :: "txn \<Rightarrow> txn" where
  "conn_rollback t = t\<lparr>working := committed t\<rparr>"

definition persist :: "state \<Rightarrow> txn \<Rightarrow> state" where
  "persist st t = st\<lparr>db := (db st)\<lparr>attendance := committed t\<rparr>\<rparr>"

text \<open>
  \<^verbatim>\<open>[(item['student_id'], schedule_id, date, item['status']) for item in attendance_data]\<close>
\<close>

definition record_of :: "pyval \<Rightarrow> pyval \<Rightarrow> pyval \<Rightarrow> exn + (pyval \<times> pyval \<times> pyval \<times> pyval)" where
  "record_of schedule_id date item =
     (case py_item item ''student_id'' of
        Inl x \<Rightarrow> Inl x
      | Inr student_id \<Rightarrow>
     (case py_item item ''status'' of
        Inl x \<Rightarrow> Inl x
      | Inr status \<Rightarrow> Inr (student_id, schedule_id, date, status)))"

fun build_records :: "pyval \<Rightarrow> pyval \<Rightarrow> pyval list \<Rightarrow> exn + (pyval \<times> pyval \<times> pyval \<times> pyval) list" where
  "build_records schedule_id date [] = Inr []"
| "build_records schedule_id date (item # items) =
     (case record_of schedule_id date item of
        Inl x \<Rightarrow> Inl x
      | Inr r \<Rightarrow>
     (case build_records schedule_id date items of
        Inl x \<Rightarrow> Inl x
      | Inr rs \<Rightarrow> Inr (r # rs)))"

text \<open>
  One row of
  \<^verbatim>\<open>INSERT INTO attendance (student_id, schedule_id, attendance_date, status)
  VALUES (%s, %s, %s, %s) ON DUPLICATE KEY UPDATE status = VALUES(status)\<close>
  with the unique key (student, schedule, date): the new table and the affected-row count
  MySQL reports (1 for an insert, 2 for a changed row, 0 for an unchanged one).
\<close>

definition same_key :: "int \<times> int \<times> string \<times> string \<Rightarrow> attendance_row \<Rightarrow> bool" where
  "same_key v r = (case v of (student_id, schedule_id, date, status) \<Rightarrow>
     a_student_id r = student_id \<and> a_schedule_id r = schedule_id \<and> a_attendance_date r = date)"

definition upsert :: "env \<Rightarrow> int \<times> int \<times> string \<times> string \<Rightarrow> attendance_row list \<Rightarrow> attendance_row list \<times> nat" where
  "upsert e v rows = (case v of (student_id, schedule_id, date, status) \<Rightarrow>
     if list_ex (same_key v) rows then
       (map (\<lambda>r. if same_key v r then r\<lparr>a_status := status\<rparr> else r) rows,
        if list_ex (\<lambda>r. same_key v r \<and> a_status r \<noteq> status) rows then 2 else 0)
     else
       (rows @ [\<lparr>a_student_id = student_id, a_schedule_id = schedule_id,
                 a_attendance_date = date, a_status = status,
                 a_timestamp = default_timestamp e\<rparr>], 1))"

text \<open>
  \<^verbatim>\<open>cursor.executemany(query, records)\<close> from row \<open>i\<close> on: the error that stopped it (if
  any), the table as the transaction then sees it, and \<^verbatim>\<open>cursor.rowcount\<close>.
\<close>

fun executemany ::
  "env \<Rightarrow> nat \<Rightarrow> (pyval \<times> pyval \<times> pyval \<times> pyval) list \<Rightarrow> attendance_row list \<Rightarrow> nat
     \<Rightarrow> exn option \<times> attendance_row list \<times> nat" where
  "executemany e i [] rows n = (None, rows, n)"
| "executemany e i (r # rs) rows n =
     (case fault e (InsertRow i) of
        Some msg \<Rightarrow> (Some (MySQLError msg), rows, n)
      | None \<Rightarrow>
     (case typed_row e r of
        Inl msg \<Rightarrow> (Some (MySQLError msg), rows, n)
      | Inr v \<Rightarrow>
          (case upsert e v rows of (rows', k) \<Rightarrow> executemany e (Suc i) rs rows' (n + k))))"

text \<open>The body of the \<^verbatim>\<open>try\<close> block of \<^verbatim>\<open>mark_attendance\<close>, on the connection's transaction.\<close>

definition mark_attendance_body ::
  "env \<Rightarrow> txn \<Rightarrow> pyval \<Rightarrow> pyval \<Rightarrow> pyval \<Rightarrow> (exn + outcome) \<times> txn" where
  "mark_attendance_body e t schedule_id date attendance_data =
     (case py_iter attendance_data of
        Inl x \<Rightarrow> (Inl x, t)
      | Inr items \<Rightarrow>
     (case build_records schedule_id date items of
        Inl x \<Rightarrow> (Inl x, t)
      | Inr records \<Rightarrow>
     (case executemany e 0 records (working t) 0 of
        (Some x, rows, n) \<Rightarrow> (Inl x, t\<lparr>working := rows\<rparr>)
      | (None, rows, rowcount) \<Rightarrow>
     (case fault e Commit of
        Some msg \<Rightarrow> (Inl (MySQLError msg), t\<lparr>working := rows\<rparr>)
      | None \<Rightarrow>
          (Inr (Json 200 (PDict [(''success'', PBool True),
                  (''message'', PStr (''Attendance for '' @ str_nat rowcount @ '' students saved.''))])),
           conn_commit (t\<lparr>working := rows\<rparr>))))))"

text \<open>
  The \<^verbatim>\<open>try\<close> block of \<^verbatim>\<open>mark_attendance\<close> with its \<^verbatim>\<open>except\<close> clause
  (\<^verbatim>\<open>conn.rollback()\<close>, then the 500): what the handler returns or raises, and the
  transaction as the \<^verbatim>\<open>finally\<close> clause finds it.
\<close>

definition mark_attendance_handled ::
  "env \<Rightarrow> txn \<Rightarrow> pyval \<Rightarrow> pyval \<Rightarrow> pyval \<Rightarrow> outcome \<times> txn" where
  "mark_attendance_handled e t0 schedule_id date attendance_data =
     (case mark_attendance_body e t0 schedule_id date attendance_data of
        (Inr out, t) \<Rightarrow> (out, t)
      | (Inl (MySQLError err), t) \<Rightarrow>
          (case fault e Rollback of
             Some msg \<Rightarrow> (Raised (MySQLError msg), t)
           | None \<Rightarrow> (Json 500 (failure err), conn_rollback t))
      | (Inl x, t) \<Rightarrow> (Raised x, t))"

definition mark_attendance :: handler where
  "mark_attendance e req st =
     (case get_json req of
        Inl x \<Rightarrow> raised x st
      | Inr data \<Rightarrow>
     (case py_get data ''schedule_id'' of
        Inl x \<Rightarrow> raised x st
      | Inr schedule_id \<Rightarrow>
     (case py_get data ''date'' of
        Inl x \<Rightarrow> raised x st
      | Inr date \<Rightarrow>
     (case py_get data ''attendance_data'' of
        Inl x \<Rightarrow> raised x st
      | Inr attendance_data \<Rightarrow>
        if \<not> list_all truthy [schedule_id, date, attendance_data] then
          respond 400 (failure ''Missing required data.'') st
        else if \<not> conn_ok e then respond 500 (failure ''Database error'') st
        else finally_close e
          (case mark_attendance_handled e
                  \<lparr>committed = attendance (db st), working = attendance (db st)\<rparr>
                  schedule_id date attendance_data of
             (out, t) \<Rightarrow> held out (persist st t))))))"

subsection \<open>Attendance view\<close>

text \<open>
  \<^verbatim>\<open>SELECT student_id, status, timestamp FROM attendance
  WHERE schedule_id = %s AND attendance_date = %s\<close>.
\<close>

definition select_attendance :: "env \<Rightarrow> database \<Rightarrow> pyval \<Rightarrow> pyval \<Rightarrow> attendance_row list" where
  "select_attendance e d schedule_id date =
     filter (\<lambda>r. eq_id e schedule_id (a_schedule_id r) \<and> eq_text e date (a_attendance_date r))
       (attendance d)"

text \<open>\<^verbatim>\<open>{rec['student_id']: rec for rec in cursor.fetchall()}\<close>: a later row replaces an earlier one.\<close>

definition attendance_dict :: "attendance_row list \<Rightarrow> (int \<rightharpoonup> attendance_row)" where
  "attendance_dict rows = fold (\<lambda>rec m. m(a_student_id rec \<mapsto> rec)) rows Map.empty"

text \<open>One round of the loop of step 4: the record appended for \<open>student\<close>.\<close>

definition merge_student :: "(int \<rightharpoonup> attendance_row) \<Rightarrow> student \<Rightarrow> pyval" where
  "merge_student attendance_records student =
     (let record = attendance_records (stu_student_id student);
          status = (case record of Some r \<Rightarrow> a_status r | None \<Rightarrow> ''absent'');
          timestamp_str =
            (case record of
               Some r \<Rightarrow> (case a_timestamp r of Some ts \<Rightarrow> PStr ts | None \<Rightarrow> PNone)
             | None \<Rightarrow> PNone)
      in PDict [(''student_id'', PInt (stu_student_id student)),
                (''student_name'', PStr (stu_name student)),
                (''student_email'', PStr (stu_email student)),
                (''status'', PStr status),
                (''timestamp'', timestamp_str)])"

definition full_attendance_list :: "student list \<Rightarrow> attendance_row list \<Rightarrow> pyval list" where
  "full_attendance_list all_students rows = map (merge_student (attendance_dict rows)) all_students"

text \<open>The body of the \<^verbatim>\<open>try\<close> block of \<^verbatim>\<open>view_attendance\<close>.\<close>

definition view_attendance_body :: "env \<Rightarrow> database \<Rightarrow> pyval \<Rightarrow> pyval \<Rightarrow> exn + outcome" where
  "view_attendance_body e d schedule_id date =
     (case execute e 0 (select_schedule e d schedule_id) of
        Inl x \<Rightarrow> Inl x
      | Inr found \<Rightarrow>
     (case fetchone found of
        None \<Rightarrow> Inr (Json 404 (failure ''Schedule not found.''))
      | Some schedule_info \<Rightarrow>
          (let batch = s_batch schedule_info in
           case execute e 1 (select_students e d batch) of
             Inl x \<Rightarrow> Inl x
           | Inr all_students \<Rightarrow>
          (case execute e 2 (select_attendance e d schedule_id date) of
             Inl x \<Rightarrow> Inl x
           | Inr rows \<Rightarrow>
               Inr (Json 200 (PDict [(''success'', PBool True),
                      (''data'', PList (full_attendance_list all_students rows))]))))))"

definition view_attendance :: handler where
  "view_attendance e req st =
     (let schedule_id = args_get req ''schedule_id'';
          date = args_get req ''date'' in
      if \<not> truthy schedule_id \<or> \<not> truthy date then
        respond 400 (failure ''Schedule ID and date are required.'') st
      else if \<not> conn_ok e then respond 500 (failure ''Database error'') st
      else finally_close e
        (case view_attendance_body e (db st) schedule_id date of
           Inr out \<Rightarrow> held out st
         | Inl (MySQLError err) \<Rightarrow>
             held (Json 500 (failure (''Database error: '' @ err))) st
         | Inl x \<Rightarrow> held (Raised x) st))"

subsection \<open>Routing\<close>

text \<open>
  The \<^verbatim>\<open>@app.route\<close> rules: a rule without \<^verbatim>\<open>methods\<close> answers GET (and HEAD), the
  others POST only; an OPTIONS request on the path of any rule is answered by Flask. Every rule under \<^verbatim>\<open>/api/teacher/\<close> but that of \<^verbatim>\<open>teacher_session\<close>
  carries \<^verbatim>\<open>@teacher_required\<close>.
\<close>

definition get_rule :: "http_method \<Rightarrow> bool" where
  "get_rule m = (m = GET \<or> m = HEAD)"

text \<open>The paths of the eleven rules.\<close>

definition rule_paths :: "string list" where
  "rule_paths =
     [''/'', ''/teacher'', ''/teacher/login'', ''/teacher/logout'',
      ''/api/teacher/session'', ''/api/teacher/schedule'', ''/api/teacher/today_classes'',
      ''/api/teacher/all_classes'', ''/api/teacher/class_students'',
      ''/api/teacher/mark_attendance'', ''/api/teacher/attendance'']"

definition dispatch :: handler where
  "dispatch e req st =
     (let p = req_path req; m = req_method req in
      if m = OPTIONS \<and> p \<in> set rule_paths then
        \<lparr>outcome = AutoOptions, final = st, conn = NoConn\<rparr>
      else if p = ''/'' \<and> get_rule m then index e req st
      else if p = ''/teacher'' \<and> get_rule m then teacher_login_page e req st
      else if p = ''/teacher/login'' \<and> m = POST then teacher_login_action e req st
      else if p = ''/teacher/logout'' \<and> m = POST then teacher_logout e req st
      else if p = ''/api/teacher/session'' \<and> get_rule m then teacher_session e req st
      else if p = ''/api/teacher/schedule'' \<and> get_rule m then
        teacher_required get_teacher_schedule e req st
      else if p = ''/api/teacher/today_classes'' \<and> get_rule m then
        teacher_required get_today_classes e req st
      else if p = ''/api/teacher/all_classes'' \<and> get_rule m then
        teacher_required get_all_teacher_classes e req st
      else if p = ''/api/teacher/class_students'' \<and> get_rule m then
        teacher_required get_class_students e req st
      else if p = ''/api/teacher/mark_attendance'' \<and> m = POST then
        teacher_required mark_attendance e req st
      else if p = ''/api/teacher/attendance'' \<and> get_rule m then
        teacher_required view_attendance e req st
      else \<lparr>outcome = NotRouted, final = st, conn = NoConn\<rparr>)"


section \<open>A small school\<close>

text \<open>
  Concrete data for running the handlers: teacher 5 holds schedule 12 of batch B1, whose
  students are Alice (1) and Bob (2); Carol (3) is in batch B2. Alice is marked present
  on 2024-01-15. The database of \<open>school_env\<close> compares a key column with an integer or
  with its decimal text, and a text column with a string.
\<close>

definition str_int :: "int \<Rightarrow> string" where
  "str_int i = (if i < 0 then CHR ''-'' # str_nat (nat (- i)) else str_nat (nat i))"

definition school_env :: env where
  "school_env =
     \<lparr>conn_ok = True,
      fault = (\<lambda>s. None),
      is_connected = True,
      today_name = ''Monday'',
      eq_id = (\<lambda>p k. p = PInt k \<or> p = PStr (str_int k)),
      eq_text = (\<lambda>p s. p = PStr s),
      collate = map of_char,
      typed_row = (\<lambda>r. case r of
          (PInt student_id, PInt schedule_id, PStr date, PStr status) \<Rightarrow>
            Inr (student_id, schedule_id, date, status)
        | _ \<Rightarrow> Inl ''Incorrect value''),
      default_timestamp = Some ''2024-01-15 09:05:00''\<rparr>"

definition school_db :: database where
  "school_db =
     \<lparr>Teachers = [\<lparr>t_teacher_id = 5, t_name = ''Asha'', t_email = ''asha@school'', t_password = ''pw''\<rparr>],
      Classes = [\<lparr>c_class_id = 1, c_class_name = ''CS''\<rparr>],
      Subjects = [\<lparr>sub_subject_id = 1, sub_subject_name = ''Logic''\<rparr>],
      Schedules = [\<lparr>s_schedule_id = 12, s_teacher_id = 5, s_class_id = 1, s_subject_id = 1,
                     s_day_of_week = ''Monday'', s_start_time = 32400, s_end_time = 36000,
                     s_batch = ''B1''\<rparr>],
      Students = [\<lparr>stu_student_id = 2, stu_name = ''Bob'', stu_email = ''bob@school'', stu_batch = ''B1''\<rparr>,
                  \<lparr>stu_student_id = 3, stu_name = ''Carol'', stu_email = ''carol@school'', stu_batch = ''B2''\<rparr>,
                  \<lparr>stu_student_id = 1, stu_name = ''Alice'', stu_email = ''alice@school'', stu_batch = ''B1''\<rparr>],
      attendance = [\<lparr>a_student_id = 1, a_schedule_id = 12, a_attendance_date = ''2024-01-15'',
                      a_status = ''present'', a_timestamp = Some ''2024-01-15 09:01:00''\<rparr>]\<rparr>"

text \<open>A visitor who has not logged in, and teacher 5 after a login.\<close>

definition anonymous :: state where
  "anonymous = \<lparr>session = Map.empty, db = school_db\<rparr>"

definition logged_in :: state where
  "logged_in =
     \<lparr>session = [''user_type'' \<mapsto> PStr ''teacher'', ''user_id'' \<mapsto> PInt 5, ''user_name'' \<mapsto> PStr ''Asha''],
      db = school_db\<rparr>"

definition get_request :: "string \<Rightarrow> (string \<times> string) list \<Rightarrow> request" where
  "get_request p a = \<lparr>req_method = GET, req_path = p, req_args = a, req_json = None\<rparr>"

definition post_request :: "string \<Rightarrow> pyval \<Rightarrow> request" where
  "post_request p body = \<lparr>req_method = POST, req_path = p, req_args = [], req_json = Some body\<rparr>"

text \<open>
  Two failing databases: one that reports a deadlock at the second row of an
  \<^verbatim>\<open>executemany\<close>, and one that loses the connection at the first query.
\<close>

definition deadlock_env :: env where
  "deadlock_env = school_env\<lparr>fault := (\<lambda>s. if s = InsertRow 1 then Some ''Deadlock found'' else None)\<rparr>"

definition outage_env :: env where
  "outage_env = school_env\<lparr>fault := (\<lambda>s. if s = Execute 0 then Some ''Lost connection'' else None)\<rparr>"

text \<open>
  A database whose connection drops at the second row of an \<^verbatim>\<open>executemany\<close>, so that
  the rollback fails as well.
\<close>

definition dropped_env :: env where
  "dropped_env =
     school_env\<lparr>fault := (\<lambda>s. if s = InsertRow 1 then Some ''Lost connection''
                             else if s = Rollback then Some ''Connection not available''
                             else None),
                is_connected := False\<rparr>"

text \<open>Attendance for Bob and Alice on 2024-01-15, as the page posts it.\<close>

definition mark_request :: "pyval list \<Rightarrow> request" where
  "mark_request items =
     post_request ''/api/teacher/mark_attendance''
       (PDict [(''schedule_id'', PInt 12), (''date'', PStr ''2024-01-15''),
               (''attendance_data'', PList items)])"

definition bob_late :: pyval where
  "bob_late = PDict [(''student_id'', PInt 2), (''status'', PStr ''late'')]"

definition alice_absent :: pyval where
  "alice_absent = PDict [(''student_id'', PInt 1), (''status'', PStr ''absent'')]"


section \<open>Properties of the handlers\<close>

subsection \<open>Shared facts\<close>

text \<open>
  For a teacher's session the decorator is transparent, so what is proved of a view
  function holds of its route.
\<close>

lemma teacher_required_teacher:
  "session st ''user_type'' = Some (PStr ''teacher'') \<Longrightarrow> teacher_required f e req st = f e req st"
  by (simp add: teacher_required_def)

text \<open>
  The dictionary of step 3 holds, for each student id, the last selected row of that
  student.
\<close>

lemma fold_dict_lookup:
  "fold (\<lambda>rec m. m(a_student_id rec \<mapsto> rec)) rows m k =
     (case filter (\<lambda>r. a_student_id r = k) rows of [] \<Rightarrow> m k | r # rs \<Rightarrow> Some (last (r # rs)))"
proof (induction rows arbitrary: m)
  case Nil
  show ?case by simp
next
  case (Cons a rows)
  have "fold (\<lambda>rec m. m(a_student_id rec \<mapsto> rec)) (a # rows) m k =
          fold (\<lambda>rec m. m(a_student_id rec \<mapsto> rec)) rows (m(a_student_id a \<mapsto> a)) k"
    by (simp only: fold_simps o_apply)
  also have "\<dots> = (case filter (\<lambda>r. a_student_id r = k) rows of
                      [] \<Rightarrow> (m(a_student_id a \<mapsto> a)) k
                    | r # rs \<Rightarrow> Some (last (r # rs)))"
    by (rule Cons.IH)
  also have "\<dots> = (case filter (\<lambda>r. a_student_id r = k) (a # rows) of
                      [] \<Rightarrow> m k
                    | r # rs \<Rightarrow> Some (last (r # rs)))"
    by (simp split: list.split)
  finally show ?case .
qed

lemma attendance_dict_lookup:
  "attendance_dict rows k =
     (case filter (\<lambda>r. a_student_id r = k) rows of [] \<Rightarrow> None | r # rs \<Rightarrow> Some (last (r # rs)))"
  by (simp add: attendance_dict_def fold_dict_lookup)

text \<open>
  The roster query: a permutation of the students of the batch, in the order of their
  names; it reads neither the attendance table nor any class id.
\<close>

lemma length_select_students:
  "length (select_students e d batch) =
     length (filter (\<lambda>s. eq_text e (PStr batch) (stu_batch s)) (Students d))"
  by (simp add: select_students_def)

lemma mset_select_students:
  "mset (select_students e d batch) =
     mset (filter (\<lambda>s. eq_text e (PStr batch) (stu_batch s)) (Students d))"
  by (simp add: select_students_def)

lemma sorted_select_students:
  "sorted (map (\<lambda>s. collate e (stu_name s)) (select_students e d batch))"
  by (simp add: select_students_def)

lemma attendance_not_read:
  "select_students e (d\<lparr>attendance := rows\<rparr>) batch = select_students e d batch"
  "select_schedule e (d\<lparr>attendance := rows\<rparr>) schedule_id = select_schedule e d schedule_id"
  by (simp_all add: select_students_def select_schedule_def)

lemma merge_student_fields:
  "py_item (merge_student recs s) ''student_id'' = Inr (PInt (stu_student_id s))"
  "py_item (merge_student recs s) ''status'' =
     Inr (PStr (case recs (stu_student_id s) of Some r \<Rightarrow> a_status r | None \<Rightarrow> ''absent''))"
  "py_item (merge_student recs s) ''timestamp'' =
     Inr (case recs (stu_student_id s) of
            Some r \<Rightarrow> (case a_timestamp r of Some ts \<Rightarrow> PStr ts | None \<Rightarrow> PNone)
          | None \<Rightarrow> PNone)"
  by (simp_all add: merge_student_def Let_def)

text \<open>
  The successful runs of the two roster handlers.
\<close>

lemma view_attendance_ok:
  assumes "args_get req ''schedule_id'' = schedule_id" "truthy schedule_id"
    and "args_get req ''date'' = date" "truthy date"
    and "conn_ok e"
    and "fault e (Execute 0) = None" "fault e (Execute 1) = None" "fault e (Execute 2) = None"
    and "fetchone (select_schedule e (db st) schedule_id) = Some schedule_info"
  shows "view_attendance e req st =
           finally_close e (held
             (Json 200 (PDict [(''success'', PBool True),
                (''data'', PList (full_attendance_list (select_students e (db st) (s_batch schedule_info))
                                    (select_attendance e (db st) schedule_id date)))])) st)"
  using assms by (simp add: view_attendance_def view_attendance_body_def execute_def Let_def)

lemma class_students_ok:
  assumes "args_get req ''schedule_id'' = schedule_id" "truthy schedule_id"
    and "conn_ok e"
    and "fault e (Execute 0) = None" "fault e (Execute 1) = None"
    and "fetchone (select_schedule e (db st) schedule_id) = Some schedule_info"
  shows "get_class_students e req st =
           finally_close e (held
             (Json 200 (PDict [(''success'', PBool True),
                (''data'', PList (map student_json (select_students e (db st) (s_batch schedule_info))))])) st)"
  using assms by (simp add: get_class_students_def class_students_body_def execute_def Let_def)

lemma class_id_not_read:
  "outcome (get_class_students e req
      (st\<lparr>db := (db st)\<lparr>Schedules := map (\<lambda>s. s\<lparr>s_class_id := f s\<rparr>) (Schedules (db st)), Classes := cs\<rparr>\<rparr>))
   = outcome (get_class_students e req st)"
proof -
  let ?d = "(db st)\<lparr>Schedules := map (\<lambda>s. s\<lparr>s_class_id := f s\<rparr>) (Schedules (db st)), Classes := cs\<rparr>"
  have found: "map s_batch (select_schedule e ?d sid) = map s_batch (select_schedule e (db st) sid)" for sid
    by (simp add: select_schedule_def filter_map comp_def)
  have batch: "map_option s_batch (fetchone (select_schedule e ?d sid))
             = map_option s_batch (fetchone (select_schedule e (db st) sid))" for sid
    using found [of sid] by (auto simp: fetchone_def split: list.splits)
  have students: "select_students e ?d b = select_students e (db st) b" for b
    by (simp add: select_students_def)
  have "class_students_body e ?d sid = class_students_body e (db st) sid" for sid
    using batch [of sid]
    by (auto simp: class_students_body_def execute_def students Let_def split: option.splits)
  then show ?thesis
    by (simp add: get_class_students_def Let_def finally_close_def held_def respond_def split: sum.split exn.split)
qed

text \<open>
  The shapes of answers, and the exceptions each part of a handler can raise.
\<close>

lemma is_failure_failure: "is_failure (failure msg)"
  by (simp add: is_failure_def failure_def)

lemma answered_json_simps:
  "answered_json (Json 200 body)"
  "answered_json (Json code (failure msg))"
  by (simp_all add: answered_json_def is_failure_failure)

lemma answered_json_caught: "answered_json out \<Longrightarrow> caught_database_errors out"
  by (cases out) (simp_all add: caught_database_errors_def answered_json_def)

lemma raised_caught: "(\<And>msg. x \<noteq> MySQLError msg) \<Longrightarrow> caught_database_errors (Raised x)"
  by (cases x) (auto simp: caught_database_errors_def)

lemma get_json_raises: "get_json req = Inl x \<Longrightarrow> x = BadRequest"
  by (simp add: get_json_def split: option.splits)

lemma py_get_raises: "py_get d k = Inl x \<Longrightarrow> x = AttributeError"
  by (cases d) simp_all

lemma record_of_raises:
  "record_of schedule_id date item = Inl x \<Longrightarrow> (\<exists>k. x = KeyError k) \<or> x = TypeError"
  by (cases item) (auto simp: record_of_def split: sum.splits option.splits)

lemma build_records_raises:
  "build_records schedule_id date items = Inl x \<Longrightarrow> (\<exists>k. x = KeyError k) \<or> x = TypeError"
proof (induction items)
  case Nil
  then show ?case by simp
next
  case (Cons item items)
  then show ?case
    by (auto split: sum.splits dest: record_of_raises)
qed

lemma session_get_teacher:
  "(session_get st ''user_type'' = PStr ''teacher'') = (session st ''user_type'' = Some (PStr ''teacher''))"
  by (simp add: session_get_def split: option.split)

lemma persist_unchanged:
  "committed t = attendance (db st) \<Longrightarrow> persist st t = st"
  by (simp add: persist_def)

subsection \<open>Attendance view\<close>

text \<open>
  Claim C1. For every valid (schedule id, date) pair - both present and non-empty, the
  schedule found, the connection obtained and the three queries answered - the attendance
  view returns a list with exactly one record per student of the schedule's batch,
  whatever rows the attendance table holds.
\<close>

theorem attendance_view_roster_size:
  assumes "args_get req ''schedule_id'' = schedule_id" "truthy schedule_id"
    and "args_get req ''date'' = date" "truthy date"
    and "conn_ok e"
    and "fault e (Execute 0) = None" "fault e (Execute 1) = None" "fault e (Execute 2) = None"
    and "fetchone (select_schedule e (db st) schedule_id) = Some schedule_info"
  shows "\<exists>records.
           outcome (view_attendance e req (st\<lparr>db := (db st)\<lparr>attendance := rows\<rparr>\<rparr>)) =
             Json 200 (PDict [(''success'', PBool True), (''data'', PList records)])
         \<and> length records =
             length (filter (\<lambda>s. eq_text e (PStr (s_batch schedule_info)) (stu_batch s)) (Students (db st)))"
proof -
  let ?st = "st\<lparr>db := (db st)\<lparr>attendance := rows\<rparr>\<rparr>"
  have found: "fetchone (select_schedule e (db ?st) schedule_id) = Some schedule_info"
    using assms(9) by (simp add: attendance_not_read)
  have "view_attendance e req ?st =
          finally_close e (held
             (Json 200 (PDict [(''success'', PBool True),
                (''data'', PList (full_attendance_list (select_students e (db ?st) (s_batch schedule_info))
                                    (select_attendance e (db ?st) schedule_id date)))])) ?st)"
    by (rule view_attendance_ok [OF assms(1-8) found])
  then show ?thesis
    by (simp add: finally_close_def held_def full_attendance_list_def length_select_students attendance_not_read)
qed

text \<open>
  Schedule 12 on 2024-01-15 with an empty attendance table: two records, for the two
  students of batch B1.
\<close>

theorem attendance_view_roster_size_witness:
  "\<exists>records.
     outcome (view_attendance school_env
        (get_request ''/api/teacher/attendance'' [(''schedule_id'', ''12''), (''date'', ''2024-01-15'')])
        (logged_in\<lparr>db := (db logged_in)\<lparr>attendance := []\<rparr>\<rparr>)) =
       Json 200 (PDict [(''success'', PBool True), (''data'', PList records)])
     \<and> length records = 2"
proof -
  let ?req = "get_request ''/api/teacher/attendance'' [(''schedule_id'', ''12''), (''date'', ''2024-01-15'')]"
  have a: "args_get ?req ''schedule_id'' = PStr ''12''" "args_get ?req ''date'' = PStr ''2024-01-15''"
    by (simp_all add: args_get_def get_request_def)
  have t: "truthy (PStr ''12'')" "truthy (PStr ''2024-01-15'')"
    by simp_all
  have c: "conn_ok school_env" "fault school_env (Execute 0) = None"
    "fault school_env (Execute 1) = None" "fault school_env (Execute 2) = None"
    by (simp_all add: school_env_def)
  have f: "fetchone (select_schedule school_env (db logged_in) (PStr ''12'')) = Some (hd (Schedules school_db))"
    by (simp add: fetchone_def select_schedule_def school_env_def logged_in_def school_db_def
        str_int_def str_nat.simps digit_def)
  have n: "length (filter (\<lambda>s. eq_text school_env (PStr (s_batch (hd (Schedules school_db)))) (stu_batch s))
             (Students (db logged_in))) = 2"
    by (simp add: school_env_def logged_in_def school_db_def)
  show ?thesis
    using attendance_view_roster_size [OF a(1) t(1) a(2) t(2) c f, of "[]"] n by simp
qed

text \<open>
  Claim C2. In the attendance view, the record at a roster student's position carries
  that student's id; with no attendance row of that student among the rows selected for
  the schedule and date it has status \<^verbatim>\<open>absent\<close> and no timestamp, otherwise it has the
  status of the student's row (of the last one, should the table hold several) and that
  row's timestamp as text.
\<close>

theorem attendance_view_merge:
  assumes "args_get req ''schedule_id'' = schedule_id" "truthy schedule_id"
    and "args_get req ''date'' = date" "truthy date"
    and "conn_ok e"
    and "fault e (Execute 0) = None" "fault e (Execute 1) = None" "fault e (Execute 2) = None"
    and "fetchone (select_schedule e (db st) schedule_id) = Some schedule_info"
    and "roster = select_students e (db st) (s_batch schedule_info)"
    and "i < length roster"
    and "mine = filter (\<lambda>r. a_student_id r = stu_student_id (roster ! i))
                  (select_attendance e (db st) schedule_id date)"
  shows "\<exists>records.
           outcome (view_attendance e req st) =
             Json 200 (PDict [(''success'', PBool True), (''data'', PList records)])
         \<and> length records = length roster
         \<and> py_item (records ! i) ''student_id'' = Inr (PInt (stu_student_id (roster ! i)))
         \<and> (case mine of
               [] \<Rightarrow> py_item (records ! i) ''status'' = Inr (PStr ''absent'')
                     \<and> py_item (records ! i) ''timestamp'' = Inr PNone
             | r # rs \<Rightarrow>
                 py_item (records ! i) ''status'' = Inr (PStr (a_status (last mine)))
               \<and> py_item (records ! i) ''timestamp'' =
                   Inr (case a_timestamp (last mine) of Some ts \<Rightarrow> PStr ts | None \<Rightarrow> PNone))"
proof -
  let ?rows = "select_attendance e (db st) schedule_id date"
  let ?records = "full_attendance_list roster ?rows"
  have out: "outcome (view_attendance e req st) =
               Json 200 (PDict [(''success'', PBool True), (''data'', PList ?records)])"
    using view_attendance_ok [OF assms(1-9)] assms(10) by (simp add: finally_close_def held_def)
  have len: "length ?records = length roster"
    by (simp add: full_attendance_list_def)
  have at: "?records ! i = merge_student (attendance_dict ?rows) (roster ! i)"
    using assms(11) by (simp add: full_attendance_list_def)
  have look: "attendance_dict ?rows (stu_student_id (roster ! i)) =
                (case mine of [] \<Rightarrow> None | r # rs \<Rightarrow> Some (last mine))"
    by (simp add: attendance_dict_lookup assms(12) split: list.split)
  have "py_item (?records ! i) ''student_id'' = Inr (PInt (stu_student_id (roster ! i)))"
    by (simp add: at merge_student_fields)
  moreover have "case mine of
      [] \<Rightarrow> py_item (?records ! i) ''status'' = Inr (PStr ''absent'')
            \<and> py_item (?records ! i) ''timestamp'' = Inr PNone
    | r # rs \<Rightarrow>
        py_item (?records ! i) ''status'' = Inr (PStr (a_status (last mine)))
      \<and> py_item (?records ! i) ''timestamp'' =
          Inr (case a_timestamp (last mine) of Some ts \<Rightarrow> PStr ts | None \<Rightarrow> PNone)"
    by (simp add: at merge_student_fields look split: list.split)
  ultimately show ?thesis
    using out len by blast
qed

text \<open>
  Schedule 12 on 2024-01-15: Alice, marked present, comes first; Bob has no row and is
  absent.
\<close>

theorem attendance_view_merge_witness:
  "\<exists>records.
     outcome (view_attendance school_env
        (get_request ''/api/teacher/attendance'' [(''schedule_id'', ''12''), (''date'', ''2024-01-15'')])
        logged_in) =
       Json 200 (PDict [(''success'', PBool True), (''data'', PList records)])
     \<and> length records = 2
     \<and> py_item (records ! 0) ''student_id'' = Inr (PInt 1)
     \<and> py_item (records ! 0) ''status'' = Inr (PStr ''present'')
     \<and> py_item (records ! 0) ''timestamp'' = Inr (PStr ''2024-01-15 09:01:00'')
     \<and> py_item (records ! 1) ''student_id'' = Inr (PInt 2)
     \<and> py_item (records ! 1) ''status'' = Inr (PStr ''absent'')
     \<and> py_item (records ! 1) ''timestamp'' = Inr PNone"
proof -
  let ?req = "get_request ''/api/teacher/attendance'' [(''schedule_id'', ''12''), (''date'', ''2024-01-15'')]"
  let ?alice = "\<lparr>stu_student_id = 1, stu_name = ''Alice'', stu_email = ''alice@school'', stu_batch = ''B1''\<rparr>"
  let ?bob = "\<lparr>stu_student_id = 2, stu_name = ''Bob'', stu_email = ''bob@school'', stu_batch = ''B1''\<rparr>"
  have a: "args_get ?req ''schedule_id'' = PStr ''12''" "args_get ?req ''date'' = PStr ''2024-01-15''"
    by (simp_all add: args_get_def get_request_def)
  have t: "truthy (PStr ''12'')" "truthy (PStr ''2024-01-15'')"
    by simp_all
  have c: "conn_ok school_env" "fault school_env (Execute 0) = None"
    "fault school_env (Execute 1) = None" "fault school_env (Execute 2) = None"
    by (simp_all add: school_env_def)
  have f: "fetchone (select_schedule school_env (db logged_in) (PStr ''12'')) = Some (hd (Schedules school_db))"
    by (simp add: fetchone_def select_schedule_def school_env_def logged_in_def school_db_def
        str_int_def str_nat.simps digit_def)
  have r: "[?alice, ?bob] = select_students school_env (db logged_in) (s_batch (hd (Schedules school_db)))"
    by (simp add: select_students_def school_env_def school_db_def logged_in_def)
  have rows: "select_attendance school_env (db logged_in) (PStr ''12'') (PStr ''2024-01-15'') = attendance school_db"
    by (simp add: select_attendance_def school_env_def logged_in_def school_db_def
        str_int_def str_nat.simps digit_def)
  have m0: "attendance school_db =
      filter (\<lambda>r. a_student_id r = stu_student_id ([?alice, ?bob] ! 0))
        (select_attendance school_env (db logged_in) (PStr ''12'') (PStr ''2024-01-15''))"
    by (simp add: rows) (simp add: school_db_def)
  have m1: "[] =
      filter (\<lambda>r. a_student_id r = stu_student_id ([?alice, ?bob] ! 1))
        (select_attendance school_env (db logged_in) (PStr ''12'') (PStr ''2024-01-15''))"
    by (simp add: rows) (simp add: school_db_def)
  have att: "attendance school_db = [\<lparr>a_student_id = 1, a_schedule_id = 12, a_attendance_date = ''2024-01-15'',
                      a_status = ''present'', a_timestamp = Some ''2024-01-15 09:01:00''\<rparr>]"
    by (simp add: school_db_def)
  show ?thesis
    using attendance_view_merge [OF a(1) t(1) a(2) t(2) c f r _ m0]
          attendance_view_merge [OF a(1) t(1) a(2) t(2) c f r _ m1]
    by (auto simp: att)
qed

subsection \<open>Roster lookup\<close>

text \<open>
  Claim C6. For a schedule id that exists (with the connection obtained and both queries
  answered), the roster lookup returns exactly the students whose batch the database
  equates with the schedule's batch, each once, in the order of their names; and its
  answer stays the same when the class ids of the schedules and the table of classes
  are changed at will.
\<close>

theorem roster_by_batch:
  assumes "args_get req ''schedule_id'' = schedule_id" "truthy schedule_id"
    and "conn_ok e"
    and "fault e (Execute 0) = None" "fault e (Execute 1) = None"
    and "fetchone (select_schedule e (db st) schedule_id) = Some schedule_info"
  shows "\<exists>students.
           outcome (get_class_students e req st) =
             Json 200 (PDict [(''success'', PBool True), (''data'', PList (map student_json students))])
         \<and> mset students =
             mset (filter (\<lambda>s. eq_text e (PStr (s_batch schedule_info)) (stu_batch s)) (Students (db st)))
         \<and> sorted (map (\<lambda>s. collate e (stu_name s)) students)
         \<and> (\<forall>f cs. outcome (get_class_students e req
                 (st\<lparr>db := (db st)\<lparr>Schedules := map (\<lambda>s. s\<lparr>s_class_id := f s\<rparr>) (Schedules (db st)),
                                     Classes := cs\<rparr>\<rparr>))
               = outcome (get_class_students e req st))"
proof -
  let ?students = "select_students e (db st) (s_batch schedule_info)"
  have "outcome (get_class_students e req st) =
          Json 200 (PDict [(''success'', PBool True), (''data'', PList (map student_json ?students))])"
    using class_students_ok [OF assms] by (simp add: finally_close_def held_def)
  then show ?thesis
    using mset_select_students sorted_select_students class_id_not_read by blast
qed

text \<open>
  Schedule 12: Bob and Alice, and not Carol of batch B2.
\<close>

theorem roster_by_batch_witness:
  "\<exists>students.
     outcome (get_class_students school_env
        (get_request ''/api/teacher/class_students'' [(''schedule_id'', ''12'')]) logged_in) =
       Json 200 (PDict [(''success'', PBool True), (''data'', PList (map student_json students))])
     \<and> mset students =
         {#\<lparr>stu_student_id = 2, stu_name = ''Bob'', stu_email = ''bob@school'', stu_batch = ''B1''\<rparr>,
           \<lparr>stu_student_id = 1, stu_name = ''Alice'', stu_email = ''alice@school'', stu_batch = ''B1''\<rparr>#}
     \<and> sorted (map (\<lambda>s. collate school_env (stu_name s)) students)"
proof -
  let ?req = "get_request ''/api/teacher/class_students'' [(''schedule_id'', ''12'')]"
  have a: "args_get ?req ''schedule_id'' = PStr ''12''"
    by (simp add: args_get_def get_request_def)
  have t: "truthy (PStr ''12'')"
    by simp
  have c: "conn_ok school_env" "fault school_env (Execute 0) = None" "fault school_env (Execute 1) = None"
    by (simp_all add: school_env_def)
  have f: "fetchone (select_schedule school_env (db logged_in) (PStr ''12'')) = Some (hd (Schedules school_db))"
    by (simp add: fetchone_def select_schedule_def school_env_def logged_in_def school_db_def
        str_int_def str_nat.simps digit_def)
  have b: "filter (\<lambda>s. eq_text school_env (PStr (s_batch (hd (Schedules school_db)))) (stu_batch s))
             (Students (db logged_in)) =
           [\<lparr>stu_student_id = 2, stu_name = ''Bob'', stu_email = ''bob@school'', stu_batch = ''B1''\<rparr>,
            \<lparr>stu_student_id = 1, stu_name = ''Alice'', stu_email = ''alice@school'', stu_batch = ''B1''\<rparr>]"
    by (simp add: school_env_def logged_in_def school_db_def)
  show ?thesis
    using roster_by_batch [OF a t c f] unfolding b by auto
qed





subsection \<open>Authentication gate\<close>

text \<open>
  Claim C3, as stated, fails at \<^verbatim>\<open>/api/teacher/session\<close>: the rule carries no
  \<^verbatim>\<open>@teacher_required\<close>, and a visitor who has not logged in gets a 200 that says so.
\<close>

theorem session_endpoint_counterexample:
  "startswith ''/api/teacher/'' (req_path (get_request ''/api/teacher/session'' []))
   \<and> session anonymous ''user_type'' = None
   \<and> outcome (dispatch school_env (get_request ''/api/teacher/session'' []) anonymous) =
       Json 200 (PDict [(''logged_in'', PBool False)])"
  by (simp add: startswith_def get_request_def anonymous_def dispatch_def get_rule_def
      teacher_session_def session_get_def respond_def)

text \<open>
  Claim C3, amended. A GET, HEAD or POST request without a teacher's session that a rule
  under \<^verbatim>\<open>/api/teacher/\<close> answers is refused with 401 and the message
  \<^verbatim>\<open>Authentication required\<close>, leaving session and database as they were and requesting
  no connection - except at \<^verbatim>\<open>/api/teacher/session\<close>, which answers 200 with
  \<^verbatim>\<open>{logged_in: false}\<close>. An OPTIONS request on the path of such a rule is answered by
  Flask itself, with a 200 that carries no data; neither the gate nor the view runs.
\<close>

theorem api_requires_teacher:
  assumes "startswith ''/api/teacher/'' (req_path req)"
    and "session st ''user_type'' \<noteq> Some (PStr ''teacher'')"
    and "outcome (dispatch e req st) \<noteq> NotRouted"
  shows "dispatch e req st =
           (if req_method req = OPTIONS
            then \<lparr>outcome = AutoOptions, final = st, conn = NoConn\<rparr>
            else if req_path req = ''/api/teacher/session''
            then \<lparr>outcome = Json 200 (PDict [(''logged_in'', PBool False)]), final = st, conn = NoConn\<rparr>
            else \<lparr>outcome = Json 401 (failure ''Authentication required''), final = st, conn = NoConn\<rparr>)"
proof (cases "req_method req = OPTIONS")
  case True
  then have no_view: "\<not> get_rule (req_method req)" "req_method req \<noteq> POST"
    by (simp_all add: get_rule_def)
  show ?thesis
    using assms(3) True no_view by (simp add: dispatch_def Let_def split: if_splits)
next
  case False
  have api: "startswith ''/api/'' (req_path req)"
    using assms(1) by (auto simp: startswith_def dest: arg_cong [where f = "take 5"])
  have gate: "teacher_required f e req st =
                \<lparr>outcome = Json 401 (failure ''Authentication required''), final = st, conn = NoConn\<rparr>" for f
    using assms(2) api by (auto simp: teacher_required_def respond_def)
  have open_session: "teacher_session e req st =
                \<lparr>outcome = Json 200 (PDict [(''logged_in'', PBool False)]), final = st, conn = NoConn\<rparr>"
    using assms(2) by (simp add: teacher_session_def session_get_teacher respond_def)
  show ?thesis
    using assms(1,3) False
    by (auto simp: dispatch_def Let_def gate open_session startswith_def split: if_splits)
qed

text \<open>
  A visitor asking for the attendance of schedule 12, and asking which methods the
  path allows.
\<close>

theorem api_requires_teacher_witness:
  "dispatch school_env (get_request ''/api/teacher/attendance'' [(''schedule_id'', ''12''), (''date'', ''2024-01-15'')]) anonymous =
     \<lparr>outcome = Json 401 (failure ''Authentication required''), final = anonymous, conn = NoConn\<rparr>
   \<and> dispatch school_env
       \<lparr>req_method = OPTIONS, req_path = ''/api/teacher/attendance'', req_args = [], req_json = None\<rparr>
       anonymous =
     \<lparr>outcome = AutoOptions, final = anonymous, conn = NoConn\<rparr>"
proof -
  let ?req = "get_request ''/api/teacher/attendance'' [(''schedule_id'', ''12''), (''date'', ''2024-01-15'')]"
  let ?opt = "\<lparr>req_method = OPTIONS, req_path = ''/api/teacher/attendance'', req_args = [], req_json = None\<rparr>"
  have p: "startswith ''/api/teacher/'' (req_path ?req)" "startswith ''/api/teacher/'' (req_path ?opt)"
    by (simp_all add: startswith_def get_request_def)
  have s: "session anonymous ''user_type'' \<noteq> Some (PStr ''teacher'')"
    by (simp add: anonymous_def)
  have r: "outcome (dispatch school_env ?req anonymous) \<noteq> NotRouted"
    by (simp add: dispatch_def get_request_def get_rule_def teacher_required_def anonymous_def
        startswith_def respond_def)
  have o: "outcome (dispatch school_env ?opt anonymous) \<noteq> NotRouted"
    by (simp add: dispatch_def rule_paths_def)
  show ?thesis
    using api_requires_teacher [OF p(1) s r] api_requires_teacher [OF p(2) s o]
    by (simp add: get_request_def)
qed

subsection \<open>Login\<close>

text \<open>
  Claim C7, as stated, fails for a pair with an empty password: it matches no teacher,
  and the answer is 400, not 401.
\<close>

theorem empty_password_counterexample:
  "select_teacher school_env (db anonymous) (PStr ''asha@school'') (PStr '''') = []
   \<and> outcome (teacher_login_action school_env
        (post_request ''/teacher/login'' (PDict [(''email'', PStr ''asha@school''), (''password'', PStr '''')]))
        anonymous) = Json 400 (failure ''Email and password are required.'')"
  by (simp add: select_teacher_def school_env_def anonymous_def school_db_def
      teacher_login_action_def get_json_def post_request_def respond_def)

text \<open>
  Claim C7, amended. For a login request whose body is a JSON object: with the email or
  the password missing or empty the answer is 400 and the session is unchanged; with both
  non-empty, the connection obtained and the query answered, a pair that matches no
  teacher record is answered with 401 and leaves the session unchanged, and a matching
  pair is answered with 200 and stores the type \<^verbatim>\<open>teacher\<close> and the id and name of the
  (first) matching teacher in the session; and a pair that matches no teacher record never
  changes the session, whatever the database does.
\<close>

theorem login_outcomes:
  assumes "get_json req = Inr data"
    and "py_get data ''email'' = Inr email"
    and "py_get data ''password'' = Inr password"
  shows "(\<not> truthy email \<or> \<not> truthy password \<longrightarrow>
            teacher_login_action e req st =
              \<lparr>outcome = Json 400 (failure ''Email and password are required.''), final = st, conn = NoConn\<rparr>)
       \<and> (truthy email \<and> truthy password \<and> conn_ok e \<and> fault e (Execute 0) = None \<longrightarrow>
            (case select_teacher e (db st) email password of
               [] \<Rightarrow>
                 outcome (teacher_login_action e req st) = Json 401 (failure ''Invalid credentials.'')
                 \<and> final (teacher_login_action e req st) = st
             | teacher # others \<Rightarrow>
                 outcome (teacher_login_action e req st) =
                   Json 200 (PDict [(''success'', PBool True),
                      (''teacher'', PDict [(''name'', PStr (t_name teacher)),
                                           (''id'', PInt (t_teacher_id teacher))])])
                 \<and> final (teacher_login_action e req st) =
                     st\<lparr>session := (session st)
                          (''user_type'' \<mapsto> PStr ''teacher'',
                           ''user_id'' \<mapsto> PInt (t_teacher_id teacher),
                           ''user_name'' \<mapsto> PStr (t_name teacher))\<rparr>))
       \<and> (select_teacher e (db st) email password = [] \<longrightarrow>
            final (teacher_login_action e req st) = st)"
proof (intro conjI impI)
  assume "\<not> truthy email \<or> \<not> truthy password"
  then show "teacher_login_action e req st =
      \<lparr>outcome = Json 400 (failure ''Email and password are required.''), final = st, conn = NoConn\<rparr>"
    using assms by (auto simp: teacher_login_action_def respond_def)
next
  assume "truthy email \<and> truthy password \<and> conn_ok e \<and> fault e (Execute 0) = None"
  then show "case select_teacher e (db st) email password of
       [] \<Rightarrow>
         outcome (teacher_login_action e req st) = Json 401 (failure ''Invalid credentials.'')
         \<and> final (teacher_login_action e req st) = st
     | teacher # others \<Rightarrow>
         outcome (teacher_login_action e req st) =
           Json 200 (PDict [(''success'', PBool True),
              (''teacher'', PDict [(''name'', PStr (t_name teacher)),
                                   (''id'', PInt (t_teacher_id teacher))])])
         \<and> final (teacher_login_action e req st) =
             st\<lparr>session := (session st)
                  (''user_type'' \<mapsto> PStr ''teacher'',
                   ''user_id'' \<mapsto> PInt (t_teacher_id teacher),
                   ''user_name'' \<mapsto> PStr (t_name teacher))\<rparr>"
    using assms
    by (simp add: teacher_login_action_def execute_def fetchone_def finally_close_def held_def split: list.split)
next
  assume "select_teacher e (db st) email password = []"
  then show "final (teacher_login_action e req st) = st"
    using assms
    by (simp add: teacher_login_action_def execute_def fetchone_def finally_close_def held_def respond_def
        split: option.split)
qed

text \<open>
  Asha logs in with her password, and fails with a guess.
\<close>

theorem login_outcomes_witness:
  "outcome (teacher_login_action school_env
      (post_request ''/teacher/login'' (PDict [(''email'', PStr ''asha@school''), (''password'', PStr ''pw'')]))
      anonymous) =
     Json 200 (PDict [(''success'', PBool True),
        (''teacher'', PDict [(''name'', PStr ''Asha''), (''id'', PInt 5)])])
   \<and> final (teacher_login_action school_env
      (post_request ''/teacher/login'' (PDict [(''email'', PStr ''asha@school''), (''password'', PStr ''pw'')]))
      anonymous) = logged_in
   \<and> outcome (teacher_login_action school_env
      (post_request ''/teacher/login'' (PDict [(''email'', PStr ''asha@school''), (''password'', PStr ''guess'')]))
      anonymous) = Json 401 (failure ''Invalid credentials.'')
   \<and> final (teacher_login_action school_env
      (post_request ''/teacher/login'' (PDict [(''email'', PStr ''asha@school''), (''password'', PStr ''guess'')]))
      anonymous) = anonymous"
proof -
  let ?good = "PDict [(''email'', PStr ''asha@school''), (''password'', PStr ''pw'')]"
  let ?bad = "PDict [(''email'', PStr ''asha@school''), (''password'', PStr ''guess'')]"
  have j: "get_json (post_request ''/teacher/login'' ?good) = Inr ?good"
    "get_json (post_request ''/teacher/login'' ?bad) = Inr ?bad"
    by (simp_all add: get_json_def post_request_def)
  have g: "py_get ?good ''email'' = Inr (PStr ''asha@school'')" "py_get ?good ''password'' = Inr (PStr ''pw'')"
    "py_get ?bad ''email'' = Inr (PStr ''asha@school'')" "py_get ?bad ''password'' = Inr (PStr ''guess'')"
    by simp_all
  have c: "conn_ok school_env \<and> fault school_env (Execute 0) = None"
    by (simp add: school_env_def)
  have s: "select_teacher school_env (db anonymous) (PStr ''asha@school'') (PStr ''pw'') =
             [\<lparr>t_teacher_id = 5, t_name = ''Asha'', t_email = ''asha@school'', t_password = ''pw''\<rparr>]"
    "select_teacher school_env (db anonymous) (PStr ''asha@school'') (PStr ''guess'') = []"
    by (simp_all add: select_teacher_def school_env_def anonymous_def school_db_def)
  have l: "anonymous\<lparr>session := (session anonymous)
              (''user_type'' \<mapsto> PStr ''teacher'', ''user_id'' \<mapsto> PInt 5, ''user_name'' \<mapsto> PStr ''Asha'')\<rparr>
           = logged_in"
    by (simp add: anonymous_def logged_in_def)
  show ?thesis
    using login_outcomes [OF j(1) g(1) g(2), of school_env anonymous]
          login_outcomes [OF j(2) g(3) g(4), of school_env anonymous] c
    by (simp add: s l)
qed

subsection \<open>Attendance write\<close>

text \<open>
  Claim C4, as stated, fails when \<^verbatim>\<open>conn.rollback()\<close> raises as well, as it does
  once the connection is gone: the error of the write is lost, and what leaves the
  handler is the uncaught error of the rollback, not a failure response.
\<close>

theorem rollback_raises_counterexample:
  "fault dropped_env (InsertRow 1) = Some ''Lost connection''
   \<and> outcome (mark_attendance dropped_env (mark_request [bob_late, alice_absent]) logged_in) =
       Raised (MySQLError ''Connection not available'')"
  by (simp add: dropped_env_def school_env_def mark_attendance_def mark_attendance_handled_def
      mark_attendance_body_def mark_request_def post_request_def get_json_def record_of_def
      bob_late_def alice_absent_def logged_in_def school_db_def upsert_def same_key_def
      finally_close_def held_def)

text \<open>
  Claim C4, amended. When a \<^verbatim>\<open>mark_attendance\<close> request has passed its checks and the
  database raises an error while the rows are written - at any row of the batch, or at
  the commit - then session and database are afterwards exactly as before the request,
  whatever rows the transaction had already written, and the outcome is never a success;
  and provided \<^verbatim>\<open>conn.rollback()\<close> does not raise itself, the \<^verbatim>\<open>except\<close> clause leaves
  the transaction rolled back to the stored table and the caller gets status 500 with the
  error's message in the failure shape.
\<close>

theorem mark_attendance_rollback:
  assumes "get_json req = Inr data"
    and "py_get data ''schedule_id'' = Inr schedule_id"
    and "py_get data ''date'' = Inr date"
    and "py_get data ''attendance_data'' = Inr attendance_data"
    and "truthy schedule_id" "truthy date" "truthy attendance_data"
    and "conn_ok e"
    and "py_iter attendance_data = Inr items"
    and "build_records schedule_id date items = Inr records"
    and "executemany e 0 records (attendance (db st)) 0 = (failed, rows, n)"
    and "failed = Some (MySQLError err) \<or> (failed = None \<and> fault e Commit = Some err)"
  shows "final (mark_attendance e req st) = st
       \<and> (\<forall>body. outcome (mark_attendance e req st) \<noteq> Json 200 body)
       \<and> (fault e Rollback = None \<longrightarrow>
            mark_attendance_handled e
              \<lparr>committed = attendance (db st), working = attendance (db st)\<rparr>
              schedule_id date attendance_data
            = (Json 500 (failure err),
               \<lparr>committed = attendance (db st), working = attendance (db st)\<rparr>)
          \<and> outcome (mark_attendance e req st) = Json 500 (failure err))"
proof -
  let ?t = "\<lparr>committed = attendance (db st), working = attendance (db st)\<rparr>"
  have body: "mark_attendance_body e ?t schedule_id date attendance_data =
                (Inl (MySQLError err), ?t\<lparr>working := rows\<rparr>)"
    using assms(9-12) by (auto simp: mark_attendance_body_def)
  have handled: "mark_attendance_handled e ?t schedule_id date attendance_data =
                   (case fault e Rollback of
                      Some msg \<Rightarrow> (Raised (MySQLError msg), ?t\<lparr>working := rows\<rparr>)
                    | None \<Rightarrow> (Json 500 (failure err), ?t))"
    by (simp add: mark_attendance_handled_def body conn_rollback_def split: option.split)
  have reply: "mark_attendance e req st =
                 finally_close e
                   (case mark_attendance_handled e ?t schedule_id date attendance_data of
                      (out, t) \<Rightarrow> held out (persist st t))"
    using assms(1-8) by (simp add: mark_attendance_def)
  show ?thesis
    unfolding reply handled
    by (simp add: persist_unchanged finally_close_def held_def split: option.split)
qed

text \<open>
  A deadlock at the second of two rows: the first row was written in the transaction,
  the rollback takes it back, and none is stored.
\<close>

theorem mark_attendance_rollback_witness:
  "fst (snd (executemany deadlock_env 0
        [(PInt 2, PInt 12, PStr ''2024-01-15'', PStr ''late''),
         (PInt 1, PInt 12, PStr ''2024-01-15'', PStr ''absent'')]
        (attendance (db logged_in)) 0)) \<noteq> attendance (db logged_in)
   \<and> final (mark_attendance deadlock_env (mark_request [bob_late, alice_absent]) logged_in) = logged_in
   \<and> working (snd (mark_attendance_handled deadlock_env
        \<lparr>committed = attendance (db logged_in), working = attendance (db logged_in)\<rparr>
        (PInt 12) (PStr ''2024-01-15'') (PList [bob_late, alice_absent]))) = attendance (db logged_in)
   \<and> outcome (mark_attendance deadlock_env (mark_request [bob_late, alice_absent]) logged_in) =
       Json 500 (failure ''Deadlock found'')"
proof -
  let ?data = "PDict [(''schedule_id'', PInt 12), (''date'', PStr ''2024-01-15''),
                      (''attendance_data'', PList [bob_late, alice_absent])]"
  let ?records = "[(PInt 2, PInt 12, PStr ''2024-01-15'', PStr ''late''),
                   (PInt 1, PInt 12, PStr ''2024-01-15'', PStr ''absent'')]"
  let ?rows = "attendance school_db @
                 [\<lparr>a_student_id = 2, a_schedule_id = 12, a_attendance_date = ''2024-01-15'',
                   a_status = ''late'', a_timestamp = Some ''2024-01-15 09:05:00''\<rparr>]"
  have j: "get_json (mark_request [bob_late, alice_absent]) = Inr ?data"
    by (simp add: get_json_def mark_request_def post_request_def)
  have g: "py_get ?data ''schedule_id'' = Inr (PInt 12)" "py_get ?data ''date'' = Inr (PStr ''2024-01-15'')"
    "py_get ?data ''attendance_data'' = Inr (PList [bob_late, alice_absent])"
    by simp_all
  have t: "truthy (PInt 12)" "truthy (PStr ''2024-01-15'')" "truthy (PList [bob_late, alice_absent])"
    by simp_all
  have c: "conn_ok deadlock_env"
    by (simp add: deadlock_env_def school_env_def)
  have i: "py_iter (PList [bob_late, alice_absent]) = Inr [bob_late, alice_absent]"
    by simp
  have b: "build_records (PInt 12) (PStr ''2024-01-15'') [bob_late, alice_absent] = Inr ?records"
    by (simp add: record_of_def bob_late_def alice_absent_def)
  have x: "executemany deadlock_env 0 ?records (attendance (db logged_in)) 0 =
             (Some (MySQLError ''Deadlock found''), ?rows, 1)"
    by (simp add: deadlock_env_def school_env_def logged_in_def school_db_def upsert_def same_key_def)
  have r: "fault deadlock_env Rollback = None"
    by (simp add: deadlock_env_def)
  have d: "fst (snd (executemany deadlock_env 0 ?records (attendance (db logged_in)) 0))
             \<noteq> attendance (db logged_in)"
    by (simp only: x) (simp add: logged_in_def)
  have m: "final (mark_attendance deadlock_env (mark_request [bob_late, alice_absent]) logged_in) = logged_in
         \<and> working (snd (mark_attendance_handled deadlock_env
              \<lparr>committed = attendance (db logged_in), working = attendance (db logged_in)\<rparr>
              (PInt 12) (PStr ''2024-01-15'') (PList [bob_late, alice_absent]))) = attendance (db logged_in)
         \<and> outcome (mark_attendance deadlock_env (mark_request [bob_late, alice_absent]) logged_in) =
             Json 500 (failure ''Deadlock found'')"
    using mark_attendance_rollback [OF j g t c i b x] r by simp
  from d m show ?thesis
    by blast
qed

text \<open>
  Claim C10. A \<^verbatim>\<open>mark_attendance\<close> request whose \<^verbatim>\<open>attendance_data\<close> is the empty list
  is answered with 400 and \<^verbatim>\<open>Missing required data.\<close>; no connection is requested and
  session and database are unchanged.
\<close>

theorem empty_attendance_data_rejected:
  assumes "req_json req = Some (PDict kvs)"
    and "map_of kvs ''attendance_data'' = Some (PList [])"
  shows "mark_attendance e req st =
           \<lparr>outcome = Json 400 (failure ''Missing required data.''), final = st, conn = NoConn\<rparr>"
  using assms by (simp add: mark_attendance_def get_json_def respond_def)

text \<open>
  Schedule 12 on 2024-01-15 with an empty list.
\<close>

theorem empty_attendance_data_rejected_witness:
  "mark_attendance school_env (mark_request []) logged_in =
     \<lparr>outcome = Json 400 (failure ''Missing required data.''), final = logged_in, conn = NoConn\<rparr>"
proof -
  let ?kvs = "[(''schedule_id'', PInt 12), (''date'', PStr ''2024-01-15''), (''attendance_data'', PList [])]"
  have j: "req_json (mark_request []) = Some (PDict ?kvs)"
    by (simp add: mark_request_def post_request_def)
  have a: "map_of ?kvs ''attendance_data'' = Some (PList [])"
    by simp
  show ?thesis
    by (rule empty_attendance_data_rejected [OF j a])
qed

subsection \<open>Errors at the handler boundary\<close>

lemma class_students_body_json:
  "class_students_body e d schedule_id = Inr out \<Longrightarrow> answered_json out"
  by (auto simp: class_students_body_def Let_def answered_json_simps split: sum.splits option.splits)

lemma class_students_body_raises:
  "class_students_body e d schedule_id = Inl x \<Longrightarrow> \<exists>msg. x = MySQLError msg"
  by (auto simp: class_students_body_def execute_def Let_def split: sum.splits option.splits)

lemma class_students_answered: "answered_json (outcome (get_class_students e req st))"
proof (cases "class_students_body e (db st) (args_get req ''schedule_id'')")
  case (Inl x)
  then obtain msg where "x = MySQLError msg"
    using class_students_body_raises by blast
  with Inl show ?thesis
    by (simp add: get_class_students_def Let_def respond_def finally_close_def held_def answered_json_simps)
next
  case (Inr out)
  then show ?thesis
    using class_students_body_json [OF Inr]
    by (simp add: get_class_students_def Let_def respond_def finally_close_def held_def answered_json_simps)
qed

lemma view_attendance_body_json:
  "view_attendance_body e d schedule_id date = Inr out \<Longrightarrow> answered_json out"
  by (auto simp: view_attendance_body_def Let_def answered_json_simps split: sum.splits option.splits)

lemma view_attendance_body_raises:
  "view_attendance_body e d schedule_id date = Inl x \<Longrightarrow> \<exists>msg. x = MySQLError msg"
  by (auto simp: view_attendance_body_def execute_def Let_def split: sum.splits option.splits)

lemma view_attendance_answered: "answered_json (outcome (view_attendance e req st))"
proof (cases "view_attendance_body e (db st) (args_get req ''schedule_id'') (args_get req ''date'')")
  case (Inl x)
  then obtain msg where "x = MySQLError msg"
    using view_attendance_body_raises by blast
  with Inl show ?thesis
    by (simp add: view_attendance_def Let_def respond_def finally_close_def held_def answered_json_simps)
next
  case (Inr out)
  then show ?thesis
    using view_attendance_body_json [OF Inr]
    by (simp add: view_attendance_def Let_def respond_def finally_close_def held_def answered_json_simps)
qed

lemma mark_attendance_body_json:
  "mark_attendance_body e t schedule_id date attendance_data = (Inr out, t') \<Longrightarrow> answered_json out"
  by (auto simp: mark_attendance_body_def answered_json_simps split: sum.splits option.splits prod.splits)

lemma mark_attendance_handled_caught:
  assumes "fault e Rollback = None"
  shows "caught_database_errors (fst (mark_attendance_handled e t0 a b c))"
proof (cases "mark_attendance_body e t0 a b c")
  case (Pair r t)
  show ?thesis
  proof (cases r)
    case (Inl x)
    then show ?thesis
      using Pair assms
      by (cases x)
        (simp_all add: mark_attendance_handled_def answered_json_simps answered_json_caught raised_caught)
  next
    case (Inr out)
    then show ?thesis
      using Pair mark_attendance_body_json [of e t0 a b c out t]
      by (simp add: mark_attendance_handled_def answered_json_caught)
  qed
qed

lemma mark_attendance_caught:
  assumes "fault e Rollback = None"
  shows "caught_database_errors (outcome (mark_attendance e req st))"
proof (cases "get_json req")
  case (Inl x)
  then show ?thesis
    using get_json_raises [OF Inl] by (simp add: mark_attendance_def raised_def raised_caught)
next
  case data: (Inr data)
  show ?thesis
  proof (cases "py_get data ''schedule_id''")
    case (Inl x)
    then show ?thesis
      using data py_get_raises [OF Inl] by (simp add: mark_attendance_def raised_def raised_caught)
  next
    case (Inr schedule_id)
    have g: "py_get data k = Inr (case data of PDict kvs \<Rightarrow> (case map_of kvs k of None \<Rightarrow> PNone | Some v \<Rightarrow> v))" for k
      using Inr by (cases data) simp_all
    have "caught_database_errors
            (outcome (finally_close e
               (case mark_attendance_handled e t0 a b c of (out, t) \<Rightarrow> held out (persist st t))))"
      for t0 a b c
      using mark_attendance_handled_caught [OF assms, of t0 a b c]
      by (auto simp: finally_close_def held_def split: prod.split)
    then show ?thesis
      using data
      by (simp add: mark_attendance_def g respond_def answered_json_simps answered_json_caught)
  qed
qed

lemma mark_attendance_raises:
  assumes "get_json req = Inr data"
    and "py_get data ''schedule_id'' = Inr schedule_id"
    and "py_get data ''date'' = Inr date"
    and "py_get data ''attendance_data'' = Inr attendance_data"
    and "truthy schedule_id" "truthy date" "truthy attendance_data"
    and "conn_ok e"
    and "py_iter attendance_data = Inr items"
    and "build_records schedule_id date items = Inl x"
  shows "outcome (mark_attendance e req st) = Raised x \<and> final (mark_attendance e req st) = st"
proof -
  let ?t = "\<lparr>committed = attendance (db st), working = attendance (db st)\<rparr>"
  have body: "mark_attendance_body e ?t schedule_id date attendance_data = (Inl x, ?t)"
    using assms(9,10) by (simp add: mark_attendance_body_def)
  from build_records_raises [OF assms(10)] show ?thesis
    using assms(1-8)
    by (auto simp: mark_attendance_def mark_attendance_handled_def body persist_unchanged
        finally_close_def held_def)
qed

text \<open>
  Claim C8, as stated, fails for \<^verbatim>\<open>mark_attendance\<close> with an item that has no
  \<^verbatim>\<open>student_id\<close>: the handler catches \<^verbatim>\<open>mysql.connector.Error\<close> only, and the
  \<^verbatim>\<open>KeyError\<close> leaves it.
\<close>

theorem missing_student_id_counterexample:
  "session logged_in ''user_type'' = Some (PStr ''teacher'')
   \<and> outcome (dispatch school_env (mark_request [PDict [(''status'', PStr ''present'')]]) logged_in) =
       Raised (KeyError ''student_id'')"
  by (simp add: logged_in_def dispatch_def mark_request_def post_request_def teacher_required_def
      mark_attendance_def mark_attendance_handled_def get_json_def school_env_def mark_attendance_body_def record_of_def
      finally_close_def held_def)

text \<open>
  Claim C8, amended. \<^verbatim>\<open>get_class_students\<close> and \<^verbatim>\<open>view_attendance\<close> always answer in
  JSON, with a 200 or with the uniform failure shape, and a database error raised in
  their \<^verbatim>\<open>try\<close> block becomes a 500 with the error's message; \<^verbatim>\<open>mark_attendance\<close>, when
  \<^verbatim>\<open>conn.rollback()\<close> does not raise, answers a database error of its \<^verbatim>\<open>try\<close> block
  likewise, and otherwise answers in JSON or lets an exception escape that is not a
  database error; and an exception raised while the records are built from
  \<^verbatim>\<open>attendance_data\<close> - the \<^verbatim>\<open>KeyError\<close> of an item without \<^verbatim>\<open>student_id\<close> or
  \<^verbatim>\<open>status\<close> - leaves \<^verbatim>\<open>mark_attendance\<close> uncaught, session and database unchanged.
\<close>

theorem database_errors_answered:
  "answered_json (outcome (get_class_students e req st))
   \<and> answered_json (outcome (view_attendance e req st))
   \<and> (fault e Rollback = None \<longrightarrow> caught_database_errors (outcome (mark_attendance e req st)))
   \<and> (truthy (args_get req ''schedule_id'') \<and> conn_ok e
        \<and> class_students_body e (db st) (args_get req ''schedule_id'') = Inl (MySQLError err) \<longrightarrow>
        outcome (get_class_students e req st) = Json 500 (failure (''Database Error: '' @ err)))
   \<and> (truthy (args_get req ''schedule_id'') \<and> truthy (args_get req ''date'') \<and> conn_ok e
        \<and> view_attendance_body e (db st) (args_get req ''schedule_id'') (args_get req ''date'')
            = Inl (MySQLError err) \<longrightarrow>
        outcome (view_attendance e req st) = Json 500 (failure (''Database error: '' @ err)))
   \<and> (get_json req = Inr data
        \<and> py_get data ''schedule_id'' = Inr schedule_id
        \<and> py_get data ''date'' = Inr date
        \<and> py_get data ''attendance_data'' = Inr attendance_data
        \<and> truthy schedule_id \<and> truthy date \<and> truthy attendance_data
        \<and> conn_ok e \<longrightarrow>
        (fault e Rollback = None
         \<and> fst (mark_attendance_body e \<lparr>committed = attendance (db st), working = attendance (db st)\<rparr>
                  schedule_id date attendance_data) = Inl (MySQLError err) \<longrightarrow>
           outcome (mark_attendance e req st) = Json 500 (failure err))
      \<and> (py_iter attendance_data = Inr items
         \<and> build_records schedule_id date items = Inl x \<longrightarrow>
           outcome (mark_attendance e req st) = Raised x \<and> final (mark_attendance e req st) = st))"
proof (intro conjI impI)
  show "answered_json (outcome (get_class_students e req st))"
    by (rule class_students_answered)
  show "answered_json (outcome (view_attendance e req st))"
    by (rule view_attendance_answered)
  show "caught_database_errors (outcome (mark_attendance e req st))" if "fault e Rollback = None"
    using that by (rule mark_attendance_caught)
  show "outcome (get_class_students e req st) = Json 500 (failure (''Database Error: '' @ err))"
    if "truthy (args_get req ''schedule_id'') \<and> conn_ok e
        \<and> class_students_body e (db st) (args_get req ''schedule_id'') = Inl (MySQLError err)"
    using that by (simp add: get_class_students_def finally_close_def held_def)
  show "outcome (view_attendance e req st) = Json 500 (failure (''Database error: '' @ err))"
    if "truthy (args_get req ''schedule_id'') \<and> truthy (args_get req ''date'') \<and> conn_ok e
        \<and> view_attendance_body e (db st) (args_get req ''schedule_id'') (args_get req ''date'')
            = Inl (MySQLError err)"
    using that by (simp add: view_attendance_def finally_close_def held_def)
next
  assume h: "get_json req = Inr data
        \<and> py_get data ''schedule_id'' = Inr schedule_id
        \<and> py_get data ''date'' = Inr date
        \<and> py_get data ''attendance_data'' = Inr attendance_data
        \<and> truthy schedule_id \<and> truthy date \<and> truthy attendance_data
        \<and> conn_ok e"
  {
    assume r: "fault e Rollback = None
         \<and> fst (mark_attendance_body e \<lparr>committed = attendance (db st), working = attendance (db st)\<rparr>
                  schedule_id date attendance_data) = Inl (MySQLError err)"
    obtain t where "mark_attendance_body e \<lparr>committed = attendance (db st), working = attendance (db st)\<rparr>
                  schedule_id date attendance_data = (Inl (MySQLError err), t)"
      using r by (metis fst_conv surj_pair)
    then show "outcome (mark_attendance e req st) = Json 500 (failure err)"
      using h r by (simp add: mark_attendance_def mark_attendance_handled_def finally_close_def held_def)
  }
  {
    assume "py_iter attendance_data = Inr items \<and> build_records schedule_id date items = Inl x"
    then have "outcome (mark_attendance e req st) = Raised x \<and> final (mark_attendance e req st) = st"
      using h mark_attendance_raises [of req data schedule_id date attendance_data e items x st] by simp
    then show "outcome (mark_attendance e req st) = Raised x" "final (mark_attendance e req st) = st"
      by simp_all
  }
qed

text \<open>
  A lost connection at the first query of the roster and of the attendance view, a
  deadlock while marking, and an item without a status.
\<close>

theorem database_errors_answered_witness:
  "outcome (get_class_students outage_env
      (get_request ''/api/teacher/class_students'' [(''schedule_id'', ''12'')]) logged_in) =
     Json 500 (failure ''Database Error: Lost connection'')
   \<and> outcome (view_attendance outage_env
      (get_request ''/api/teacher/attendance'' [(''schedule_id'', ''12''), (''date'', ''2024-01-15'')]) logged_in) =
     Json 500 (failure ''Database error: Lost connection'')
   \<and> caught_database_errors (outcome (mark_attendance deadlock_env (mark_request [bob_late, alice_absent]) logged_in))
   \<and> outcome (mark_attendance deadlock_env (mark_request [bob_late, alice_absent]) logged_in) =
     Json 500 (failure ''Deadlock found'')
   \<and> outcome (mark_attendance school_env (mark_request [bob_late, PDict [(''student_id'', PInt 1)]]) logged_in) =
     Raised (KeyError ''status'')"
proof -
  let ?roster = "get_request ''/api/teacher/class_students'' [(''schedule_id'', ''12'')]"
  let ?view = "get_request ''/api/teacher/attendance'' [(''schedule_id'', ''12''), (''date'', ''2024-01-15'')]"
  let ?items = "[bob_late, PDict [(''student_id'', PInt 1)]]"
  let ?data = "PDict [(''schedule_id'', PInt 12), (''date'', PStr ''2024-01-15''),
                      (''attendance_data'', PList ?items)]"
  let ?both = "[bob_late, alice_absent]"
  let ?posted = "PDict [(''schedule_id'', PInt 12), (''date'', PStr ''2024-01-15''),
                        (''attendance_data'', PList ?both)]"
  have o: "truthy (args_get ?roster ''schedule_id'') \<and> conn_ok outage_env
           \<and> class_students_body outage_env (db logged_in) (args_get ?roster ''schedule_id'')
               = Inl (MySQLError ''Lost connection'')"
    "truthy (args_get ?view ''schedule_id'') \<and> truthy (args_get ?view ''date'') \<and> conn_ok outage_env
           \<and> view_attendance_body outage_env (db logged_in) (args_get ?view ''schedule_id'') (args_get ?view ''date'')
               = Inl (MySQLError ''Lost connection'')"
    by (simp_all add: args_get_def get_request_def outage_env_def school_env_def
        class_students_body_def view_attendance_body_def execute_def)
  have r: "fault deadlock_env Rollback = None"
    by (simp add: deadlock_env_def)
  have k: "get_json (mark_request ?items) = Inr ?data
        \<and> py_get ?data ''schedule_id'' = Inr (PInt 12)
        \<and> py_get ?data ''date'' = Inr (PStr ''2024-01-15'')
        \<and> py_get ?data ''attendance_data'' = Inr (PList ?items)
        \<and> truthy (PInt 12) \<and> truthy (PStr ''2024-01-15'') \<and> truthy (PList ?items)
        \<and> conn_ok school_env"
    "py_iter (PList ?items) = Inr ?items
        \<and> build_records (PInt 12) (PStr ''2024-01-15'') ?items = Inl (KeyError ''status'')"
    by (simp_all add: get_json_def mark_request_def post_request_def school_env_def record_of_def bob_late_def)
  have m: "get_json (mark_request ?both) = Inr ?posted
        \<and> py_get ?posted ''schedule_id'' = Inr (PInt 12)
        \<and> py_get ?posted ''date'' = Inr (PStr ''2024-01-15'')
        \<and> py_get ?posted ''attendance_data'' = Inr (PList ?both)
        \<and> truthy (PInt 12) \<and> truthy (PStr ''2024-01-15'') \<and> truthy (PList ?both)
        \<and> conn_ok deadlock_env"
    "fst (mark_attendance_body deadlock_env
            \<lparr>committed = attendance (db logged_in), working = attendance (db logged_in)\<rparr>
            (PInt 12) (PStr ''2024-01-15'') (PList ?both)) = Inl (MySQLError ''Deadlock found'')"
    by (simp_all add: get_json_def mark_request_def post_request_def deadlock_env_def school_env_def
        mark_attendance_body_def record_of_def bob_late_def alice_absent_def logged_in_def
        school_db_def upsert_def same_key_def)
  have w1: "outcome (get_class_students outage_env ?roster logged_in) =
              Json 500 (failure ''Database Error: Lost connection'')"
    using database_errors_answered [where e = outage_env and req = ?roster and st = logged_in
        and err = "''Lost connection''" and data = PNone and schedule_id = PNone and date = PNone
        and attendance_data = PNone and items = "[]" and x = TypeError] o(1)
    by simp
  have w2: "outcome (view_attendance outage_env ?view logged_in) =
              Json 500 (failure ''Database error: Lost connection'')"
    using database_errors_answered [where e = outage_env and req = ?view and st = logged_in
        and err = "''Lost connection''" and data = PNone and schedule_id = PNone and date = PNone
        and attendance_data = PNone and items = "[]" and x = TypeError] o(2)
    by simp
  have w3: "caught_database_errors (outcome (mark_attendance deadlock_env (mark_request ?both) logged_in))
          \<and> outcome (mark_attendance deadlock_env (mark_request ?both) logged_in) =
              Json 500 (failure ''Deadlock found'')"
    using database_errors_answered [where e = deadlock_env and req = "mark_request ?both"
        and st = logged_in and err = "''Deadlock found''" and data = ?posted and schedule_id = "PInt 12"
        and date = "PStr ''2024-01-15''" and attendance_data = "PList ?both" and items = "[]"
        and x = TypeError] r m
    by (simp add: answered_json_caught answered_json_simps)
  have w4: "outcome (mark_attendance school_env (mark_request ?items) logged_in) = Raised (KeyError ''status'')"
    using database_errors_answered [where e = school_env and req = "mark_request ?items"
        and st = logged_in and err = "[]" and data = ?data and schedule_id = "PInt 12"
        and date = "PStr ''2024-01-15''" and attendance_data = "PList ?items" and items = ?items
        and x = "KeyError ''status''"] k
    by simp
  from w1 w2 w3 w4 show ?thesis
    by blast
qed

subsection \<open>Connections\<close>

lemma finally_close_conn: "conn (finally_close e r) = (if is_connected e then Closed else Lost)"
  by (simp add: finally_close_def)

lemma respond_conn: "conn (respond code body st) = NoConn"
  by (simp add: respond_def)

lemma raised_conn: "conn (raised x st) = NoConn"
  by (simp add: raised_def)

lemma released_simps:
  "released e (finally_close e r)"
  "released e (respond code body st)"
  "released e (raised x st)"
  "released e \<lparr>outcome = out, final = st, conn = NoConn\<rparr>"
  by (simp_all add: released_def finally_close_conn respond_conn raised_conn)

lemma login_released: "released e (teacher_login_action e req st)"
  by (simp add: teacher_login_action_def released_simps split: sum.split option.split)

lemma schedule_released: "released e (get_teacher_schedule e req st)"
  by (simp add: get_teacher_schedule_def Let_def released_simps split: sum.split)

lemma today_released: "released e (get_today_classes e req st)"
  by (simp add: get_today_classes_def Let_def released_simps split: sum.split)

lemma all_classes_released: "released e (get_all_teacher_classes e req st)"
  by (simp add: get_all_teacher_classes_def Let_def released_simps split: sum.split)

lemma class_students_released: "released e (get_class_students e req st)"
  by (simp add: get_class_students_def Let_def released_simps split: sum.split exn.split)

lemma mark_attendance_released: "released e (mark_attendance e req st)"
  by (simp add: mark_attendance_def released_simps split: sum.split exn.split option.split prod.split)

lemma view_attendance_released: "released e (view_attendance e req st)"
  by (simp add: view_attendance_def Let_def released_simps split: sum.split exn.split)

lemma teacher_required_released:
  "(\<And>e req st. released e (f e req st)) \<Longrightarrow> released e (teacher_required f e req st)"
  by (simp add: teacher_required_def released_simps)

text \<open>
  Claim C9. Every handler that acquires a database connection - the login, the three
  schedule queries, the roster lookup, the attendance write and the attendance view - has
  released it when it returns, on every path: the reply of each, and of any routed
  request, holds no connection.
\<close>

theorem connection_released:
  "released e (teacher_login_action e req st)
   \<and> released e (get_teacher_schedule e req st)
   \<and> released e (get_today_classes e req st)
   \<and> released e (get_all_teacher_classes e req st)
   \<and> released e (get_class_students e req st)
   \<and> released e (mark_attendance e req st)
   \<and> released e (view_attendance e req st)
   \<and> released e (dispatch e req st)"
proof -
  have "released e (dispatch e req st)"
    by (simp add: dispatch_def Let_def login_released schedule_released today_released
      all_classes_released class_students_released mark_attendance_released view_attendance_released
      teacher_required_released index_def teacher_login_page_def teacher_logout_def
      teacher_session_def released_simps)
  then show ?thesis
    by (simp add: login_released schedule_released today_released all_classes_released
        class_students_released mark_attendance_released view_attendance_released)
qed

text \<open>
  The connection is closed after the 404 of an unknown schedule, after a database error
  in the attendance view, and when a \<^verbatim>\<open>KeyError\<close> leaves the attendance write.
\<close>

theorem connection_released_witness:
  "conn (get_class_students school_env
      (get_request ''/api/teacher/class_students'' [(''schedule_id'', ''99'')]) logged_in) = Closed
   \<and> conn (view_attendance outage_env
      (get_request ''/api/teacher/attendance'' [(''schedule_id'', ''12''), (''date'', ''2024-01-15'')])
      logged_in) = Closed
   \<and> conn (mark_attendance school_env (mark_request [PDict [(''status'', PStr ''present'')]]) logged_in) = Closed"
proof -
  let ?roster = "get_request ''/api/teacher/class_students'' [(''schedule_id'', ''99'')]"
  let ?view = "get_request ''/api/teacher/attendance'' [(''schedule_id'', ''12''), (''date'', ''2024-01-15'')]"
  let ?mark = "mark_request [PDict [(''status'', PStr ''present'')]]"
  have up: "is_connected school_env" "is_connected outage_env"
    by (simp_all add: outage_env_def school_env_def)
  have acquired:
    "conn (get_class_students school_env ?roster logged_in) \<noteq> NoConn"
    "conn (view_attendance outage_env ?view logged_in) \<noteq> NoConn"
    "conn (mark_attendance school_env ?mark logged_in) \<noteq> NoConn"
    by (simp_all add: get_class_students_def view_attendance_def mark_attendance_def mark_attendance_handled_def args_get_def
        get_request_def mark_request_def post_request_def get_json_def outage_env_def school_env_def
        finally_close_def held_def split: sum.split exn.split prod.split)
  show ?thesis
    using connection_released [of school_env ?roster logged_in]
          connection_released [of outage_env ?view logged_in]
          connection_released [of school_env ?mark logged_in]
          up acquired
    by (simp add: released_def)
qed

end
